theory Spec2Isabelle
  imports Complex_Main "HOL-Library.Sublist"
begin

section \<open>JavaScript values used by the assessment application\<close>

text \<open>
  A JavaScript number is NaN, an infinity or a finite value. Finite values are kept as
  exact rationals: every finite double is one, and the operations modelled below
  (comparison, minimum, maximum, sums of small integers, one division) are the ones the
  application performs. The rounding of a decimal literal to the nearest double is not
  modelled.
\<close>

datatype number = NaN | NegInf | Fin rat | PosInf

definition isNaN :: "number \<Rightarrow> bool" where
  "isNaN n \<longleftrightarrow> n = NaN"

fun mathMin :: "number \<Rightarrow> number \<Rightarrow> number" where
  "mathMin NaN y = NaN"
| "mathMin x NaN = NaN"
| "mathMin NegInf y = NegInf"
| "mathMin x NegInf = NegInf"
| "mathMin PosInf y = y"
| "mathMin x PosInf = x"
| "mathMin (Fin a) (Fin b) = Fin (min a b)"

fun mathMax :: "number \<Rightarrow> number \<Rightarrow> number" where
  "mathMax NaN y = NaN"
| "mathMax x NaN = NaN"
| "mathMax PosInf y = PosInf"
| "mathMax x PosInf = PosInf"
| "mathMax NegInf y = y"
| "mathMax x NegInf = x"
| "mathMax (Fin a) (Fin b) = Fin (max a b)"

text \<open>
  Strings are lists of code units. The white space of \<^verbatim>\<open>String.prototype.trim\<close> and of
  the numeric parsers is TAB, LF, VT, FF, CR, SPACE and NBSP (the white space code units
  below 256).
\<close>

definition isWhiteSpace :: "char \<Rightarrow> bool" where
  "isWhiteSpace c \<longleftrightarrow>
     c \<in> set [CHR 0x09, CHR 0x0A, CHR 0x0B, CHR 0x0C, CHR 0x0D, CHR '' '', CHR 0xA0]"

definition trim :: "string \<Rightarrow> string" where
  "trim s = rev (dropWhile isWhiteSpace (rev (dropWhile isWhiteSpace s)))"

definition digitVal :: "char \<Rightarrow> nat option" where
  "digitVal = map_of
     [(CHR ''0'', 0), (CHR ''1'', 1), (CHR ''2'', 2), (CHR ''3'', 3), (CHR ''4'', 4),
      (CHR ''5'', 5), (CHR ''6'', 6), (CHR ''7'', 7), (CHR ''8'', 8), (CHR ''9'', 9)]"

definition isDigit :: "char \<Rightarrow> bool" where
  "isDigit c \<longleftrightarrow> digitVal c \<noteq> None"

definition digitsVal :: "string \<Rightarrow> nat" where
  "digitsVal ds = foldl (\<lambda>a c. 10 * a + the (digitVal c)) 0 ds"

text \<open>The optional exponent of a decimal literal: \<^verbatim>\<open>e\<close> or \<^verbatim>\<open>E\<close>, a sign, digits.
  Without a digit there is no exponent.\<close>

definition exponentPart :: "string \<Rightarrow> int" where
  "exponentPart r =
     (case r of
        [] \<Rightarrow> 0
      | c # t \<Rightarrow>
          if c = CHR ''e'' \<or> c = CHR ''E'' then
            (case t of
               [] \<Rightarrow> 0
             | d # u \<Rightarrow>
                 if d = CHR ''-'' then - int (digitsVal (takeWhile isDigit u))
                 else if d = CHR ''+'' then int (digitsVal (takeWhile isDigit u))
                 else int (digitsVal (takeWhile isDigit t)))
          else 0)"

text \<open>
  \<^verbatim>\<open>parseFloat\<close>: skip leading white space, read the longest prefix that is a decimal
  literal (sign, \<^verbatim>\<open>Infinity\<close> or digits with an optional fraction and exponent), NaN
  when there is none. The argument is converted to a string first, so \<^verbatim>\<open>undefined\<close>
  is the string \<^verbatim>\<open>"undefined"\<close>, which parses to NaN.
\<close>

definition parseFloat :: "string \<Rightarrow> number" where
  "parseFloat s =
     (let t = dropWhile isWhiteSpace s;
          neg = (case t of [] \<Rightarrow> False | c # _ \<Rightarrow> c = CHR ''-'');
          u = (case t of [] \<Rightarrow> [] | c # r \<Rightarrow> if c = CHR ''-'' \<or> c = CHR ''+'' then r else t)
      in if prefix ''Infinity'' u then (if neg then NegInf else PosInf)
         else
           let ip = takeWhile isDigit u;
               r1 = dropWhile isDigit u;
               hasDot = (case r1 of [] \<Rightarrow> False | c # _ \<Rightarrow> c = CHR ''.'');
               fp = (if hasDot then takeWhile isDigit (tl r1) else []);
               r2 = (if hasDot then dropWhile isDigit (tl r1) else r1)
           in if ip = [] \<and> fp = [] then NaN
              else
                let m = of_nat (digitsVal ip) + of_nat (digitsVal fp) / 10 ^ length fp
                in Fin ((if neg then - m else m) * 10 powi exponentPart r2))"

section \<open>Configuration (ASSESSMENT_CONFIG)\<close>

definition ratingScale_min :: number where
  "ratingScale_min = Fin 0"

definition ratingScale_max :: number where
  "ratingScale_max = Fin 5"

section \<open>Rating validation at the editing surface\<close>

text \<open>\<^verbatim>\<open>validateInput(value)\<close> of script.js.\<close>

definition validateInput :: "string \<Rightarrow> number" where
  "validateInput v =
     (let num = parseFloat v
      in if isNaN num then Fin 0
         else mathMax ratingScale_min (mathMin ratingScale_max num))"

section \<open>Export file name\<close>

text \<open>The character class \<^verbatim>\<open>[a-z0-9_-]\<close> under the \<^verbatim>\<open>i\<close> flag.\<close>

definition filenameChar :: "char \<Rightarrow> bool" where
  "filenameChar c \<longleftrightarrow>
     c \<in> set ''abcdefghijklmnopqrstuvwxyzABCDEFGHIJKLMNOPQRSTUVWXYZ0123456789_-''"

text \<open>\<^verbatim>\<open>.replace(/[^a-z0-9_-]/gi, '_')\<close>\<close>

definition replaceDisallowed :: "string \<Rightarrow> string" where
  "replaceDisallowed s = map (\<lambda>c. if filenameChar c then c else CHR ''_'') s"

text \<open>\<^verbatim>\<open>.replace(/_{2,}/g, '_')\<close>: every maximal run of two or more underscores is
  replaced by one underscore; a single underscore is a run of length one and stays.\<close>

function collapseUnderscores :: "string \<Rightarrow> string" where
  "collapseUnderscores [] = []"
| "collapseUnderscores (c # cs) =
     (if c = CHR ''_'' then c # collapseUnderscores (dropWhile (\<lambda>d. d = CHR ''_'') cs)
      else c # collapseUnderscores cs)"
  by pat_completeness auto
termination
  by (relation "measure length") (auto simp: length_dropWhile_le less_Suc_eq_le)

definition sanitizeFilename :: "string \<Rightarrow> string" where
  "sanitizeFilename name = take 50 (collapseUnderscores (replaceDisallowed (trim name)))"

text \<open>
  The file name computed in \<^verbatim>\<open>saveToCSV\<close>. The first argument is \<^verbatim>\<open>this.employeeName\<close>
  (the empty string is falsy), the second is \<^verbatim>\<open>new Date().toISOString()\<close>, of which
  \<^verbatim>\<open>split('T')[0]\<close> keeps what precedes the first \<^verbatim>\<open>T\<close>.
\<close>

definition exportFilename :: "string \<Rightarrow> string \<Rightarrow> string" where
  "exportFilename name isoDate =
     (let sanitizedName = (if name \<noteq> [] then sanitizeFilename name else ''user'');
          dateStr = takeWhile (\<lambda>c. c \<noteq> CHR ''T'') isoDate
      in sanitizedName @ ''_assessment_'' @ dateStr @ ''.csv'')"





section \<open>More string operations\<close>

definition digitChar :: "nat \<Rightarrow> char" where
  "digitChar d = ''0123456789'' ! (d mod 10)"

text \<open>Decimal digits of a natural number.\<close>

fun natToString :: "nat \<Rightarrow> string" where
  "natToString n =
     (if n < 10 then [digitChar n] else natToString (n div 10) @ [digitChar (n mod 10)])"

declare natToString.simps [simp del]

fun fracDigits :: "nat \<Rightarrow> rat \<Rightarrow> string" where
  "fracDigits 0 f = []"
| "fracDigits (Suc k) f =
     (if f = 0 then [] else digitChar (nat \<lfloor>10 * f\<rfloor>) # fracDigits k (frac (10 * f)))"

text \<open>
  The string of a number, as assigning a number to \<^verbatim>\<open>input.value\<close> produces it. It is
  exact for integers; a fraction is printed in positional notation with at most 20
  digits (the engine prints the shortest digits that read back as the same double, and
  switches to exponent notation below 1e-6 and from 1e21 on, which is not modelled).
\<close>

definition numberToString :: "number \<Rightarrow> string" where
  "numberToString x =
     (case x of
        NaN \<Rightarrow> ''NaN''
      | PosInf \<Rightarrow> ''Infinity''
      | NegInf \<Rightarrow> ''-Infinity''
      | Fin q \<Rightarrow>
          (if q < 0 then ''-'' else []) @ natToString (nat \<lfloor>\<bar>q\<bar>\<rfloor>) @
          (if frac \<bar>q\<bar> = 0 then [] else ''.'' @ fracDigits 20 (frac \<bar>q\<bar>)))"

definition hexVal :: "char \<Rightarrow> nat option" where
  "hexVal c =
     (case digitVal c of
        Some d \<Rightarrow> Some d
      | None \<Rightarrow>
          map_of [(CHR ''a'', 10), (CHR ''b'', 11), (CHR ''c'', 12), (CHR ''d'', 13),
                  (CHR ''e'', 14), (CHR ''f'', 15), (CHR ''A'', 10), (CHR ''B'', 11),
                  (CHR ''C'', 12), (CHR ''D'', 13), (CHR ''E'', 14), (CHR ''F'', 15)] c)"

text \<open>
  \<^verbatim>\<open>parseInt\<close> without a radix: leading white space, a sign, then hexadecimal digits
  after \<^verbatim>\<open>0x\<close> or decimal digits; the longest such prefix is read, \<open>None\<close> stands
  for NaN.
\<close>

definition parseInt :: "string \<Rightarrow> int option" where
  "parseInt s =
     (let t = dropWhile isWhiteSpace s;
          neg = (case t of [] \<Rightarrow> False | c # _ \<Rightarrow> c = CHR ''-'');
          u = (case t of [] \<Rightarrow> [] | c # r \<Rightarrow> if c = CHR ''-'' \<or> c = CHR ''+'' then r else t)
      in if prefix ''0x'' u \<or> prefix ''0X'' u then
           (let ds = takeWhile (\<lambda>c. hexVal c \<noteq> None) (drop 2 u);
                n = int (foldl (\<lambda>a c. 16 * a + the (hexVal c)) 0 ds)
            in if ds = [] then None else Some (if neg then - n else n))
         else
           (let ds = takeWhile isDigit u;
                n = int (digitsVal ds)
            in if ds = [] then None else Some (if neg then - n else n)))"

text \<open>\<^verbatim>\<open>parseInt(x) || 0\<close>: NaN and 0 are falsy.\<close>

definition parseIntOr0 :: "string \<Rightarrow> int" where
  "parseIntOr0 v = (case parseInt v of None \<Rightarrow> 0 | Some n \<Rightarrow> n)"

text \<open>\<^verbatim>\<open>str.split(sep)\<close> for a separator of one character: never the empty list.\<close>

fun splitOn :: "char \<Rightarrow> string \<Rightarrow> string list" where
  "splitOn sep [] = [[]]"
| "splitOn sep (c # cs) =
     (if c = sep then [] # splitOn sep cs
      else (case splitOn sep cs of [] \<Rightarrow> [[c]] | l # ls \<Rightarrow> (c # l) # ls))"

text \<open>\<^verbatim>\<open>str.toLowerCase()\<close>: the letters A to Z are mapped to a to z. Other code units
  are left as they are (none of them becomes an ASCII letter, which is all that the
  searches for \<^verbatim>\<open>categories\<close> and \<^verbatim>\<open>ratings\<close> depend on).\<close>

definition toLowerCase :: "string \<Rightarrow> string" where
  "toLowerCase s =
     map (\<lambda>c. case map_of (zip ''ABCDEFGHIJKLMNOPQRSTUVWXYZ'' ''abcdefghijklmnopqrstuvwxyz'') c of
                 None \<Rightarrow> c | Some l \<Rightarrow> l) s"

text \<open>\<^verbatim>\<open>str.includes(needle)\<close>\<close>

fun includesStr :: "string \<Rightarrow> string \<Rightarrow> bool" where
  "includesStr [] needle = (needle = [])"
| "includesStr (c # cs) needle = (prefix needle (c # cs) \<or> includesStr cs needle)"

section \<open>The client application (class PerformanceAssessment)\<close>

text \<open>The themes of \<^verbatim>\<open>ASSESSMENT_CONFIG\<close> with the identifiers of their metrics.\<close>

definition themes :: "(string \<times> string list) list" where
  "themes =
     [(''Strategic Vision'',
        [''sharedVision'', ''strategy'', ''businessAlignment'', ''customerFocus'']),
      (''Focus and Engagement'',
        [''crossFunctionalTeams'', ''clarityInPriorities'', ''acceptanceCriteria'',
         ''enablingFocus'', ''engagement'']),
      (''Autonomy and Change'',
        [''feedback'', ''enablingAutonomy'', ''changeAndAmbiguity'', ''desiredCulture'',
         ''workAutonomously'']),
      (''Stakeholders and Team'',
        [''stakeholders'', ''teamAttrition'', ''teams'', ''developingPeople'',
         ''subordinatesForSuccess''])]"

text \<open>The metrics visited by
  \<^verbatim>\<open>Object.values(this.themes).forEach(t => t.metrics.forEach(...))\<close>.\<close>

definition allMetricIds :: "string list" where
  "allMetricIds = concat (map snd themes)"

text \<open>
  The number inputs of \<^verbatim>\<open>#inputForm\<close> in document order, each with its id and its
  current value. \<^verbatim>\<open>document.getElementById(id)\<close> finds the first input with that id.
\<close>

type_synonym form = "(string \<times> string) list"

fun setValue :: "string \<Rightarrow> string \<Rightarrow> form \<Rightarrow> form" where
  "setValue i v [] = []"
| "setValue i v ((k, x) # r) = (if k = i then (k, v) # r else (k, x) # setValue i v r)"

text \<open>The object written to the local cache (its JSON text is not modelled).\<close>

record cached =
  cachedEmployeeName :: string
  cachedDate :: string
  cachedFormData :: "(string \<times> string) list"

datatype message = ErrorMessage string | SuccessMessage string

text \<open>An identifier issued by the server; such identifiers are non-empty strings, so
  the truthiness test \<^verbatim>\<open>if (this.currentAssessmentId)\<close> is the test for non-null.\<close>

datatype objectId = ObjectId string

record payload =
  payloadEmployeeName :: string
  payloadAssessmentDate :: string
  payloadMetrics :: "(string \<times> int) list"

datatype request = CreateRequest payload | UpdateRequest objectId payload

text \<open>
  The state of the page: the fields of the object, the value of the \<^verbatim>\<open>#employeeName\<close>
  input (\<open>None\<close> when the element is absent), the number inputs, the data of the
  chart (\<open>None\<close> when the chart failed to initialise), the local storage, the messages
  shown by showErrorMessage and showSuccessMessage, the console, and the requests sent
  to the server so far.
\<close>

record app =
  employeeName :: string
  currentAssessmentId :: "objectId option"
  nameInput :: "string option"
  inputForm :: form
  chartData :: "number list option"
  localStorage :: "string \<rightharpoonup> cached"
  messages :: "message list"
  console :: "string list"
  requests :: "request list"

text \<open>
  What the page cannot decide: whether \<^verbatim>\<open>window.authManager\<close> reports a logged-in
  user, the clock, whether \<^verbatim>\<open>localStorage.setItem\<close> throws, and the outcome of the two
  API calls (\<open>Inl\<close> carries the message of the error thrown by the client).
\<close>

record env =
  authenticated :: bool
  now :: string
  storageFails :: bool
  api_createAssessment :: "payload \<Rightarrow> string + objectId"
  api_updateAssessment :: "objectId \<Rightarrow> payload \<Rightarrow> string + unit"

definition showErrorMessage :: "string \<Rightarrow> app \<Rightarrow> app" where
  "showErrorMessage m s = s\<lparr>messages := messages s @ [ErrorMessage m]\<rparr>"

definition showSuccessMessage :: "string \<Rightarrow> app \<Rightarrow> app" where
  "showSuccessMessage m s = s\<lparr>messages := messages s @ [SuccessMessage m]\<rparr>"

definition updateChart :: "app \<Rightarrow> app" where
  "updateChart s =
     (case chartData s of
        None \<Rightarrow> s
      | Some _ \<Rightarrow>
          s\<lparr>chartData :=
               Some (map (\<lambda>k. case map_of (inputForm s) k of
                                 None \<Rightarrow> Fin 0
                               | Some v \<Rightarrow> validateInput v) allMetricIds),
             console := console s @
               map (\<lambda>k. ''Missing input field: '' @ k)
                 (filter (\<lambda>k. map_of (inputForm s) k = None) allMetricIds)\<rparr>)"

definition saveToLocalStorage :: "env \<Rightarrow> app \<Rightarrow> app" where
  "saveToLocalStorage e s =
     (if storageFails e then s\<lparr>console := console s @ [''Failed to save to localStorage'']\<rparr>
      else s\<lparr>localStorage := (localStorage s)(''performanceAssessment'' \<mapsto>
               \<lparr>cachedEmployeeName = employeeName s, cachedDate = now e,
                cachedFormData = inputForm s\<rparr>)\<rparr>)"

definition collectFormData :: "app \<Rightarrow> (string \<times> int) list" where
  "collectFormData s =
     List.map_filter
       (\<lambda>k. case map_of (inputForm s) k of
               None \<Rightarrow> None
             | Some v \<Rightarrow> Some (k, parseIntOr0 v))
       allMetricIds"

text \<open>The object \<^verbatim>\<open>data\<close> built in saveToMongoDB.\<close>

definition assessmentData :: "env \<Rightarrow> app \<Rightarrow> payload" where
  "assessmentData e s =
     (let name = (case nameInput s of None \<Rightarrow> [] | Some v \<Rightarrow> trim v)
      in \<lparr>payloadEmployeeName = (if name \<noteq> [] then name else ''Unknown''),
          payloadAssessmentDate = now e,
          payloadMetrics = collectFormData s\<rparr>)"

text \<open>The \<^verbatim>\<open>try\<close> block of saveToMongoDB: \<open>Inl\<close> is a thrown error with the state
  reached when it was thrown.\<close>

definition saveToMongoDB_try :: "env \<Rightarrow> app \<Rightarrow> (string \<times> app) + app" where
  "saveToMongoDB_try e s =
     (if \<not> authenticated e then
        Inr (saveToLocalStorage e
               (s\<lparr>console := console s @ [''Not authenticated, saving to localStorage only'']\<rparr>))
      else
        let data = assessmentData e s
        in (case currentAssessmentId s of
              Some i \<Rightarrow>
                (let s1 = s\<lparr>requests := requests s @ [UpdateRequest i data]\<rparr>
                 in case api_updateAssessment e i data of
                      Inl err \<Rightarrow> Inl (err, s1)
                    | Inr _ \<Rightarrow>
                        Inr (saveToLocalStorage e
                               (showSuccessMessage ''Assessment updated successfully'' s1)))
            | None \<Rightarrow>
                (let s1 = s\<lparr>requests := requests s @ [CreateRequest data]\<rparr>
                 in case api_createAssessment e data of
                      Inl err \<Rightarrow> Inl (err, s1)
                    | Inr newId \<Rightarrow>
                        Inr (saveToLocalStorage e
                               (showSuccessMessage ''Assessment saved to database''
                                  (s1\<lparr>currentAssessmentId := Some newId\<rparr>))))))"

text \<open>saveToMongoDB with its \<^verbatim>\<open>catch\<close> block. \<open>Inl\<close> would be an error that leaves
  the function.\<close>

definition saveToMongoDB :: "env \<Rightarrow> app \<Rightarrow> string + app" where
  "saveToMongoDB e s =
     (case saveToMongoDB_try e s of
        Inr s' \<Rightarrow> Inr s'
      | Inl (err, s1) \<Rightarrow>
          Inr (showSuccessMessage ''Saved locally (offline mode)''
                 (saveToLocalStorage e
                    (showErrorMessage (''Could not save to database: '' @ err)
                       (s1\<lparr>console := console s1 @ [''MongoDB save error: '' @ err]\<rparr>)))))"

text \<open>clearAll. The title of the chart, which it also resets, is not part of the state.\<close>

definition clearAll :: "app \<Rightarrow> app" where
  "clearAll s =
     (let s1 = s\<lparr>inputForm := map (\<lambda>(k, v). (k, numberToString (Fin 0))) (inputForm s)\<rparr>;
          s2 = (case nameInput s1 of
                  None \<Rightarrow> s1
                | Some _ \<Rightarrow> s1\<lparr>nameInput := Some [], employeeName := []\<rparr>);
          s3 = updateChart s2;
          s4 = s3\<lparr>localStorage := (localStorage s3)(''performanceAssessment'' := None)\<rparr>
      in showSuccessMessage ''All values have been cleared'' s4)"

definition newAssessment :: "app \<Rightarrow> app" where
  "newAssessment s =
     showSuccessMessage ''Ready for new assessment'' (clearAll (s\<lparr>currentAssessmentId := None\<rparr>))"

text \<open>
  Modelled from the spec: the markup of the page is not among the sources. The entries of
  \<^verbatim>\<open>new FormData(inputForm)\<close> are taken to be the number inputs, each under a name equal to
  its id ("each subsequent non-blank line is metricId,ratingValue").
\<close>

definition formEntries :: "app \<Rightarrow> (string \<times> string) list" where
  "formEntries s = inputForm s"

record download =
  csvContent :: string
  filename :: string

definition saveToCSV :: "env \<Rightarrow> app \<Rightarrow> download" where
  "saveToCSV e s =
     \<lparr>csvContent =
        foldl (\<lambda>csv (key, value). csv @ key @ '','' @ value @ [CHR 0x0A])
          (''Categories,Ratings'' @ [CHR 0x0A]) (formEntries s),
      filename = exportFilename (employeeName s) (now e)\<rparr>"

datatype csvError = EmptyOrInvalid | InvalidHeader | NoValidData

definition errorText :: "csvError \<Rightarrow> string" where
  "errorText err =
     (case err of
        EmptyOrInvalid \<Rightarrow> ''CSV file is empty or invalid''
      | InvalidHeader \<Rightarrow> ''Invalid CSV format. Expected \"Categories,Ratings\" header''
      | NoValidData \<Rightarrow> ''No valid data found in CSV file'')"

text \<open>
  One turn of the loop over the data rows of parseAndLoadCSV. The state is the form, the
  count of loaded ratings and the warnings written to the console. A row without a
  comma has the rating \<^verbatim>\<open>undefined\<close>.
\<close>

definition loadRow :: "string \<Rightarrow> form \<times> nat \<times> string list \<Rightarrow> form \<times> nat \<times> string list" where
  "loadRow l st =
     (case st of (f, loadedCount, warnings) \<Rightarrow>
        let line = trim l
        in if line = [] then st
           else
             (case map trim (splitOn CHR '','' line) of
                [] \<Rightarrow> st
              | category # rest \<Rightarrow>
                  let rating = (case rest of [] \<Rightarrow> ''undefined'' | r # _ \<Rightarrow> r)
                  in if category \<notin> set allMetricIds then
                       (f, loadedCount, warnings @ [''Unknown category in CSV: '' @ category])
                     else
                       let value = validateInput rating
                       in (case map_of f category of
                             None \<Rightarrow> st
                           | Some _ \<Rightarrow>
                               (setValue category (numberToString value) f, Suc loadedCount,
                                warnings))))"

definition parseAndLoadCSV :: "env \<Rightarrow> string \<Rightarrow> app \<Rightarrow> csvError + app" where
  "parseAndLoadCSV e content s =
     (case splitOn (CHR 0x0A) (trim content) of
        [] \<Rightarrow> Inl EmptyOrInvalid
      | [h] \<Rightarrow> Inl EmptyOrInvalid
      | h # rows \<Rightarrow>
          let header = toLowerCase h
          in if \<not> includesStr header ''categories'' \<or> \<not> includesStr header ''ratings'' then
               Inl InvalidHeader
             else
               (case fold loadRow rows (inputForm s, 0, []) of
                  (f, loadedCount, warnings) \<Rightarrow>
                    if loadedCount = 0 then Inl NoValidData
                    else
                      Inr (showSuccessMessage
                             (''Successfully loaded '' @ natToString loadedCount @
                              '' ratings from CSV'')
                             (saveToLocalStorage e
                                (updateChart
                                   (s\<lparr>inputForm := f, console := console s @ warnings\<rparr>))))))"

text \<open>
  Notions for stating what the import loop computes: the trimmed columns of a row, its
  category and rating, whether it is blank, whether its category is a metric with an
  input on the page, whether its category is unknown, and the value the last row of a
  category leaves in the input of that category.
\<close>

definition rowColumns :: "string \<Rightarrow> string list" where
  "rowColumns l = map trim (splitOn CHR '','' (trim l))"

definition rowCategory :: "string \<Rightarrow> string" where
  "rowCategory l = (case rowColumns l of [] \<Rightarrow> [] | c # _ \<Rightarrow> c)"

definition rowRating :: "string \<Rightarrow> string" where
  "rowRating l = (case rowColumns l of c # r # _ \<Rightarrow> r | _ \<Rightarrow> ''undefined'')"

definition blankRow :: "string \<Rightarrow> bool" where
  "blankRow l \<longleftrightarrow> trim l = []"

definition unknownRow :: "string \<Rightarrow> bool" where
  "unknownRow l \<longleftrightarrow> \<not> blankRow l \<and> rowCategory l \<notin> set allMetricIds"

definition recognizedRow :: "form \<Rightarrow> string \<Rightarrow> bool" where
  "recognizedRow f l \<longleftrightarrow>
     \<not> blankRow l \<and> rowCategory l \<in> set allMetricIds \<and> map_of f (rowCategory l) \<noteq> None"

definition importedValue :: "form \<Rightarrow> string list \<Rightarrow> string \<Rightarrow> string option" where
  "importedValue f rows k =
     (let ls = filter (\<lambda>l. recognizedRow f l \<and> rowCategory l = k) rows
      in if ls = [] then None
         else Some (numberToString (validateInput (rowRating (last ls)))))"

text \<open>Lines joined by line feeds, without a final line feed.\<close>

fun joinLines :: "string list \<Rightarrow> string" where
  "joinLines [] = []"
| "joinLines [r] = r"
| "joinLines (r # rs) = r @ CHR 0x0A # joinLines rs"

text \<open>The error, if any, with which the API call made by saveToMongoDB in state \<open>s\<close>
  fails.\<close>

definition apiError :: "env \<Rightarrow> app \<Rightarrow> string option" where
  "apiError e s =
     (case currentAssessmentId s of
        Some i \<Rightarrow>
          (case api_updateAssessment e i (assessmentData e s) of Inl err \<Rightarrow> Some err | Inr _ \<Rightarrow> None)
      | None \<Rightarrow>
          (case api_createAssessment e (assessmentData e s) of Inl err \<Rightarrow> Some err | Inr _ \<Rightarrow> None))"

text \<open>A session of autosaves, one environment per timer expiry.\<close>

fun saveAll :: "env list \<Rightarrow> app \<Rightarrow> app" where
  "saveAll [] s = s"
| "saveAll (e # es) s = (case saveToMongoDB e s of Inl _ \<Rightarrow> s | Inr s' \<Rightarrow> saveAll es s')"

text \<open>Sample data for the examples below.\<close>

definition offline :: env where
  "offline =
     \<lparr>authenticated = False, now = ''2024-03-05T10:11:12.000Z'', storageFails = False,
      api_createAssessment = (\<lambda>d. Inl ''Failed to fetch''),
      api_updateAssessment = (\<lambda>i d. Inl ''Failed to fetch'')\<rparr>"

definition online :: env where
  "online =
     \<lparr>authenticated = True, now = ''2024-03-05T10:11:12.000Z'', storageFails = False,
      api_createAssessment = (\<lambda>d. Inr (ObjectId ''65e6f0a1b2c3d4e5f6a7b8c9'')),
      api_updateAssessment = (\<lambda>i d. Inr ())\<rparr>"

definition freshForm :: form where
  "freshForm = map (\<lambda>k. (k, [])) allMetricIds"

definition freshApp :: app where
  "freshApp =
     \<lparr>employeeName = [], currentAssessmentId = None, nameInput = Some [],
      inputForm = freshForm, chartData = None, localStorage = Map.empty, messages = [],
      console = [], requests = []\<rparr>"

section \<open>The assessment document (Assessment model)\<close>

text \<open>
  The \<^verbatim>\<open>metrics\<close> object of the schema: nineteen required paths of type Number, each
  with minimum 0 and maximum 5.
\<close>

record metrics =
  sharedVision :: rat
  strategy :: rat
  businessAlignment :: rat
  customerFocus :: rat
  crossFunctionalTeams :: rat
  clarityInPriorities :: rat
  acceptanceCriteria :: rat
  enablingFocus :: rat
  engagement :: rat
  feedback :: rat
  enablingAutonomy :: rat
  changeAndAmbiguity :: rat
  desiredCulture :: rat
  workAutonomously :: rat
  stakeholders :: rat
  teamAttrition :: rat
  teams :: rat
  developingPeople :: rat
  subordinatesForSuccess :: rat

text \<open>\<^verbatim>\<open>Object.values(metrics)\<close>, in the order of the schema.\<close>

definition objectValues :: "metrics \<Rightarrow> rat list" where
  "objectValues m =
     [sharedVision m, strategy m, businessAlignment m, customerFocus m,
      crossFunctionalTeams m, clarityInPriorities m, acceptanceCriteria m, enablingFocus m, engagement m,
      feedback m, enablingAutonomy m, changeAndAmbiguity m, desiredCulture m, workAutonomously m,
      stakeholders m, teamAttrition m, teams m, developingPeople m, subordinatesForSuccess m]"

definition calculateThemeAverages :: "metrics \<Rightarrow> (string \<times> rat) list" where
  "calculateThemeAverages m =
     [(''Strategic Vision'',
        (sharedVision m + strategy m + businessAlignment m + customerFocus m) / 4),
      (''Focus and Engagement'',
        (crossFunctionalTeams m + clarityInPriorities m + acceptanceCriteria m + enablingFocus m + engagement m) / 5),
      (''Autonomy and Change'',
        (feedback m + enablingAutonomy m + changeAndAmbiguity m + desiredCulture m + workAutonomously m) / 5),
      (''Stakeholders and Team'',
        (stakeholders m + teamAttrition m + teams m + developingPeople m + subordinatesForSuccess m) / 5)]"

definition calculateOverallAverage :: "metrics \<Rightarrow> rat" where
  "calculateOverallAverage m =
     (let values = objectValues m;
          sum = foldl (\<lambda>acc val. acc + val) 0 values
      in sum / of_nat (length values))"

text \<open>
  The rating a record stores under a metric identifier (\<^verbatim>\<open>metrics[id]\<close>), and the
  arithmetic mean of the ratings of a list of metrics. They state what an average is,
  from the themes of the configuration; 0 stands in for an identifier that is not a path
  of the schema.
\<close>

definition ratingOf :: "metrics \<Rightarrow> string \<Rightarrow> rat" where
  "ratingOf m k = (case map_of (zip allMetricIds (objectValues m)) k of None \<Rightarrow> 0 | Some v \<Rightarrow> v)"

definition meanRating :: "metrics \<Rightarrow> string list \<Rightarrow> rat" where
  "meanRating m ids = sum_list (map (ratingOf m) ids) / of_nat (length ids)"

text \<open>The mean of the four theme averages, for comparison with the overall average.\<close>

definition meanOfThemeAverages :: "metrics \<Rightarrow> rat" where
  "meanOfThemeAverages m = sum_list (map snd (calculateThemeAverages m)) / 4"

definition validRating :: "rat \<Rightarrow> bool" where
  "validRating v \<longleftrightarrow> 0 \<le> v \<and> v \<le> 5"

section \<open>The server: validation middleware and assessment controllers\<close>

type_synonym date = string

text \<open>A stored document of the Assessment model.\<close>

record assessment =
  docId :: objectId
  userId :: string
  docEmployeeName :: string
  assessmentDate :: date
  docMetrics :: metrics
  createdAt :: date
  updatedAt :: date
  version :: nat

text \<open>The clock of the server and the identifier the database gives to the next
  document.\<close>

record server =
  serverNow :: date
  freshId :: objectId

datatype response =
    Json200 assessment
  | Json201 assessment "string list"
  | BadRequest string
  | ValidationFailed "(string \<times> string) list"
  | MissingMetrics "string list"
  | NotFound string
  | ServerError string

text \<open>The list \<^verbatim>\<open>requiredMetrics\<close> of importFromCSV.\<close>

definition requiredMetrics :: "string list" where
  "requiredMetrics =
     [''sharedVision'', ''strategy'', ''businessAlignment'', ''customerFocus'',
      ''crossFunctionalTeams'', ''clarityInPriorities'', ''acceptanceCriteria'', ''enablingFocus'',
      ''engagement'',
      ''feedback'', ''enablingAutonomy'', ''changeAndAmbiguity'', ''desiredCulture'',
      ''workAutonomously'',
      ''stakeholders'', ''teamAttrition'', ''teams'', ''developingPeople'',
      ''subordinatesForSuccess'']"

text \<open>
  Casting and validating a \<^verbatim>\<open>metrics\<close> object against the schema: every one of the
  nineteen paths is required and must be a number from 0 to 5; other keys are dropped.
  \<open>None\<close> is a validation error.
\<close>

definition castMetrics :: "(string \<rightharpoonup> rat) \<Rightarrow> metrics option" where
  "castMetrics m =
     (if list_all (\<lambda>k. case m k of None \<Rightarrow> False | Some v \<Rightarrow> 0 \<le> v \<and> v \<le> 5) requiredMetrics
      then Some \<lparr>sharedVision = the (m ''sharedVision''),
              strategy = the (m ''strategy''),
              businessAlignment = the (m ''businessAlignment''),
              customerFocus = the (m ''customerFocus''),
              crossFunctionalTeams = the (m ''crossFunctionalTeams''),
              clarityInPriorities = the (m ''clarityInPriorities''),
              acceptanceCriteria = the (m ''acceptanceCriteria''),
              enablingFocus = the (m ''enablingFocus''),
              engagement = the (m ''engagement''),
              feedback = the (m ''feedback''),
              enablingAutonomy = the (m ''enablingAutonomy''),
              changeAndAmbiguity = the (m ''changeAndAmbiguity''),
              desiredCulture = the (m ''desiredCulture''),
              workAutonomously = the (m ''workAutonomously''),
              stakeholders = the (m ''stakeholders''),
              teamAttrition = the (m ''teamAttrition''),
              teams = the (m ''teams''),
              developingPeople = the (m ''developingPeople''),
              subordinatesForSuccess = the (m ''subordinatesForSuccess'')\<rparr>
      else None)"

text \<open>
  \<^verbatim>\<open>isInt({ min: 0, max: 5 })\<close> on the string of a field: an optional sign and one or
  more decimal digits, with a value from 0 to 5.
\<close>

definition isInt05 :: "string \<Rightarrow> bool" where
  "isInt05 v =
     (let u = (case v of [] \<Rightarrow> [] | c # r \<Rightarrow> if c = CHR ''-'' \<or> c = CHR ''+'' then r else v)
      in u \<noteq> [] \<and> list_all isDigit u \<and>
         (case parseInt v of None \<Rightarrow> False | Some n \<Rightarrow> 0 \<le> n \<and> n \<le> 5))"

text \<open>The nineteen metric rules of validateAssessment with their messages.\<close>

definition metricRules :: "(string \<times> string) list" where
  "metricRules =
     [(''sharedVision'', ''Shared Vision must be between 0 and 5''),
      (''strategy'', ''Strategy must be between 0 and 5''),
      (''businessAlignment'', ''Business Alignment must be between 0 and 5''),
      (''customerFocus'', ''Customer Focus must be between 0 and 5''),
      (''crossFunctionalTeams'', ''Cross-Functional Teams must be between 0 and 5''),
      (''clarityInPriorities'', ''Clarity in Priorities must be between 0 and 5''),
      (''acceptanceCriteria'', ''Acceptance Criteria must be between 0 and 5''),
      (''enablingFocus'', ''Enabling Focus must be between 0 and 5''),
      (''engagement'', ''Engagement must be between 0 and 5''),
      (''feedback'', ''Feedback must be between 0 and 5''),
      (''enablingAutonomy'', ''Enabling Autonomy must be between 0 and 5''),
      (''changeAndAmbiguity'', ''Change and Ambiguity must be between 0 and 5''),
      (''desiredCulture'', ''Desired Culture must be between 0 and 5''),
      (''workAutonomously'', ''Works Autonomously must be between 0 and 5''),
      (''stakeholders'', ''Stakeholders must be between 0 and 5''),
      (''teamAttrition'', ''Team Attrition must be between 0 and 5''),
      (''teams'', ''Teams must be between 0 and 5''),
      (''developingPeople'', ''Developing People must be between 0 and 5''),
      (''subordinatesForSuccess'', ''Subordinates for Success must be between 0 and 5'')]"

text \<open>
  validateAssessment followed by handleValidationErrors. The body gives the fields as the
  validator reads them (as strings; \<open>None\<close> when absent). The rule for the optional
  assessmentDate uses \<^verbatim>\<open>isISO8601\<close>, taken here as a parameter. The result is the list
  of errors, each a field and a message; the request is rejected with status 400 when it
  is not empty.
\<close>

record assessmentBody =
  bodyEmployeeName :: "string option"
  bodyAssessmentDate :: "string option"
  bodyMetrics :: "string \<rightharpoonup> string"

definition validateAssessment :: "(string \<Rightarrow> bool) \<Rightarrow> assessmentBody \<Rightarrow> (string \<times> string) list" where
  "validateAssessment isISO8601 body =
     (let name = (case bodyEmployeeName body of None \<Rightarrow> [] | Some n \<Rightarrow> trim n)
      in (if name = [] then [(''employeeName'', ''Employee name is required'')] else []) @
         (if length name < 1 \<or> 100 < length name then
            [(''employeeName'', ''Employee name must be between 1 and 100 characters'')]
          else []) @
         (case bodyAssessmentDate body of
            None \<Rightarrow> []
          | Some d \<Rightarrow>
              if isISO8601 d then []
              else [(''assessmentDate'', ''Assessment date must be a valid date'')]) @
         map (\<lambda>(k, msg). (''metrics.'' @ k, msg))
           (filter (\<lambda>(k, msg). case bodyMetrics body k of None \<Rightarrow> True | Some v \<Rightarrow> \<not> isInt05 v)
              metricRules))"

definition handleValidationErrors :: "(string \<times> string) list \<Rightarrow> response option" where
  "handleValidationErrors errors = (if errors \<noteq> [] then Some (ValidationFailed errors) else None)"

text \<open>
  \<^verbatim>\<open>new Assessment({...})\<close> followed by \<^verbatim>\<open>save()\<close>: the name is trimmed by the schema and
  required, the metrics are cast and validated. \<open>Inl\<close> is the error thrown by save.
\<close>

definition saveNew ::
  "server \<Rightarrow> string \<Rightarrow> string \<Rightarrow> date \<Rightarrow> (string \<rightharpoonup> rat) \<Rightarrow> assessment list \<Rightarrow>
     string + assessment \<times> assessment list" where
  "saveNew sv uid name day m db =
     (case castMetrics m of
        None \<Rightarrow> Inl ''ValidationError''
      | Some ms \<Rightarrow>
          if trim name = [] then Inl ''ValidationError''
          else
            let doc = \<lparr>docId = freshId sv, userId = uid, docEmployeeName = trim name,
                       assessmentDate = day, docMetrics = ms, createdAt = serverNow sv,
                       updatedAt = serverNow sv, version = 1\<rparr>
            in Inr (doc, db @ [doc]))"

text \<open>
  The casts the database layer applies to the strings of a request, taken as parameters
  (the library is not among the sources): the cast of \<^verbatim>\<open>req.params.id\<close> to an ObjectId
  and the cast of a supplied \<^verbatim>\<open>assessmentDate\<close> to a Date. \<open>None\<close> is a cast error.
\<close>

record casting =
  castObjectId :: "string \<Rightarrow> objectId option"
  castDate :: "string \<Rightarrow> date option"

text \<open>
  \<^verbatim>\<open>Assessment.findOne({ _id: req.params.id, userId: req.userId })\<close>: \<open>Inl\<close> is the
  cast error thrown for an id that is not a well-formed ObjectId, \<open>Inr None\<close> is
  \<^verbatim>\<open>null\<close>. The user id comes from the verified token.
\<close>

definition findOne ::
  "casting \<Rightarrow> string \<Rightarrow> string \<Rightarrow> assessment list \<Rightarrow> string + assessment option" where
  "findOne c idParam uid db =
     (case castObjectId c idParam of
        None \<Rightarrow> Inl ''CastError''
      | Some i \<Rightarrow> Inr (find (\<lambda>a. docId a = i \<and> userId a = uid) db))"



text \<open>One turn of the loop over the rows in importFromCSV: the metrics object and the
  list of errors.\<close>

definition importRow ::
  "string \<Rightarrow> (string \<rightharpoonup> int) \<times> string list \<Rightarrow> (string \<rightharpoonup> int) \<times> string list" where
  "importRow l st =
     (case st of (m, errors) \<Rightarrow>
        let line = trim l
        in if line = [] then st
           else
             (case map trim (splitOn CHR '','' line) of
                [] \<Rightarrow> st
              | category # rest \<Rightarrow>
                  let rating = (case rest of [] \<Rightarrow> ''undefined'' | r # _ \<Rightarrow> r)
                  in (case parseInt rating of
                        None \<Rightarrow>
                          (m, errors @ [''Invalid rating for '' @ category @ '': '' @ rating])
                      | Some v \<Rightarrow>
                          if v < 0 \<or> 5 < v then
                            (m, errors @ [''Invalid rating for '' @ category @ '': '' @ rating])
                          else (m(category \<mapsto> v), errors))))"

text \<open>importFromCSV of the controller: the uploaded file (\<open>None\<close> when absent), the
  \<^verbatim>\<open>employeeName\<close> field of the form and the collection.\<close>

definition importFromCSV ::
  "server \<Rightarrow> string \<Rightarrow> string option \<Rightarrow> string option \<Rightarrow> assessment list \<Rightarrow>
     response \<times> assessment list" where
  "importFromCSV sv uid file nameField db =
     (case file of
        None \<Rightarrow> (BadRequest ''CSV file is required'', db)
      | Some csvData \<Rightarrow>
          let name = (case nameField of
                        None \<Rightarrow> ''Unknown''
                      | Some n \<Rightarrow> if n \<noteq> [] then n else ''Unknown'')
          in (case splitOn (CHR 0x0A) (trim csvData) of
                [] \<Rightarrow> (BadRequest ''CSV file is empty or invalid'', db)
              | [h] \<Rightarrow> (BadRequest ''CSV file is empty or invalid'', db)
              | h # rows \<Rightarrow>
                  let header = toLowerCase h
                  in if \<not> includesStr header ''categories'' \<or> \<not> includesStr header ''ratings''
                     then (BadRequest (errorText InvalidHeader), db)
                     else
                       (case fold importRow rows (Map.empty, []) of
                          (m, errors) \<Rightarrow>
                            let missingMetrics = filter (\<lambda>metric. m metric = None) requiredMetrics
                            in if missingMetrics \<noteq> [] then (MissingMetrics missingMetrics, db)
                               else
                                 (case saveNew sv uid name (serverNow sv)
                                         (\<lambda>k. map_option rat_of_int (m k)) db of
                                    Inl err \<Rightarrow> (ServerError ''Failed to import CSV'', db)
                                  | Inr (doc, db') \<Rightarrow> (Json201 doc errors, db')))))"

text \<open>Sample data for the examples below.\<close>

definition sampleMetrics :: metrics where
  "sampleMetrics = \<lparr>sharedVision = 3, strategy = 3, businessAlignment = 3, customerFocus = 3, crossFunctionalTeams = 3, clarityInPriorities = 3, acceptanceCriteria = 3, enablingFocus = 3, engagement = 3, feedback = 3, enablingAutonomy = 3, changeAndAmbiguity = 3, desiredCulture = 3, workAutonomously = 3, stakeholders = 3, teamAttrition = 3, teams = 3, developingPeople = 3, subordinatesForSuccess = 3\<rparr>"


definition sampleServer :: server where
  "sampleServer =
     \<lparr>serverNow = ''2024-04-01T08:00:00.000Z'', freshId = ObjectId ''65e6f0a1b2c3d4e5f6a7b8ca''\<rparr>"


text \<open>A CSV with a row for each metric, all rated 3 except \<^verbatim>\<open>feedback,3.7\<close>.\<close>

definition sampleCsv :: string where
  "sampleCsv =
     ''Categories,Ratings'' @ [CHR 0x0A] @
     concat (map (\<lambda>k. k @ (if k = ''feedback'' then '',3.7'' else '',3'') @ [CHR 0x0A])
               requiredMetrics)"

section \<open>Properties\<close>

lemmas parse_defs =
  parseFloat_def isWhiteSpace_def isDigit_def digitVal_def digitsVal_def exponentPart_def

lemmas validate_defs = validateInput_def isNaN_def ratingScale_min_def ratingScale_max_def

text \<open>
  Claim C1. For every input v: when v parses as a number r in [0,5], validateInput
  returns r itself, fractional or not; when r is below 0 it returns 0, when r is above 5
  (also for Infinity) it returns 5; when v does not parse as a number it returns 0.
\<close>

theorem validateInput_clamps:
  "(parseFloat v = NaN \<longrightarrow> validateInput v = Fin 0) \<and>
   (\<forall>r. parseFloat v = Fin r \<longrightarrow>
      (0 \<le> r \<and> r \<le> 5 \<longrightarrow> validateInput v = Fin r) \<and>
      (r < 0 \<longrightarrow> validateInput v = Fin 0) \<and>
      (5 < r \<longrightarrow> validateInput v = Fin 5)) \<and>
   (parseFloat v = NegInf \<longrightarrow> validateInput v = Fin 0) \<and>
   (parseFloat v = PosInf \<longrightarrow> validateInput v = Fin 5)"
  by (cases "parseFloat v") (auto simp: validate_defs)

theorem validateInput_clamps_witness:
  "validateInput ''3.5'' = Fin (7 / 2) \<and> validateInput ''-2'' = Fin 0 \<and>
   validateInput ''7'' = Fin 5 \<and> validateInput ''abc'' = Fin 0"
proof -
  have a: "parseFloat ''3.5'' = Fin (7 / 2)" by (simp add: parse_defs)
  have b: "parseFloat ''-2'' = Fin (- 2)" by (simp add: parse_defs)
  have c: "parseFloat ''7'' = Fin 7" by (simp add: parse_defs)
  have d: "parseFloat ''abc'' = NaN" by (simp add: parse_defs)
  show ?thesis
    using validateInput_clamps [of "''3.5''"] validateInput_clamps [of "''-2''"]
      validateInput_clamps [of "''7''"] validateInput_clamps [of "''abc''"]
    by (simp add: a b c d)
qed

subsection \<open>Export file name\<close>










subsection \<open>Averages\<close>

lemma ratingOf_fields:
  "map (ratingOf m) allMetricIds = objectValues m"
  by (simp add: ratingOf_def allMetricIds_def themes_def objectValues_def)

lemma themeAverages_means:
  "calculateThemeAverages m = map (\<lambda>(t, ids). (t, meanRating m ids)) themes"
  by (simp add: calculateThemeAverages_def meanRating_def themes_def ratingOf_def allMetricIds_def
      objectValues_def)

lemma allMetricIds_length: "length allMetricIds = 19"
  by (simp add: allMetricIds_def themes_def)

lemma overall_mean: "calculateOverallAverage m = meanRating m allMetricIds"
proof -
  have "meanRating m allMetricIds = sum_list (objectValues m) / 19"
    by (simp add: meanRating_def ratingOf_fields allMetricIds_length)
  moreover have "calculateOverallAverage m = sum_list (objectValues m) / 19"
    by (simp add: calculateOverallAverage_def objectValues_def)
  ultimately show ?thesis by simp
qed

text \<open>
  Claim C3. For every complete record whose nineteen ratings lie in [0,5], the theme
  averages are, theme by theme of the configuration, the arithmetic mean of the ratings
  of that theme's metrics; each of the four lies in [0,5]; and the overall average is
  the arithmetic mean of all nineteen ratings, their sum divided by 19.
\<close>

theorem averages_of_complete_record:
  assumes "list_all validRating (objectValues m)"
  shows "calculateThemeAverages m = map (\<lambda>(t, ids). (t, meanRating m ids)) themes \<and>
         map fst (calculateThemeAverages m) =
           [''Strategic Vision'', ''Focus and Engagement'', ''Autonomy and Change'',
            ''Stakeholders and Team''] \<and>
         list_all validRating (map snd (calculateThemeAverages m)) \<and>
         calculateOverallAverage m = meanRating m allMetricIds \<and>
         calculateOverallAverage m =
           (sharedVision m + strategy m + businessAlignment m + customerFocus m +
            crossFunctionalTeams m + clarityInPriorities m + acceptanceCriteria m +
            enablingFocus m + engagement m +
            feedback m + enablingAutonomy m + changeAndAmbiguity m + desiredCulture m +
            workAutonomously m +
            stakeholders m + teamAttrition m + teams m + developingPeople m +
            subordinatesForSuccess m) / 19"
proof -
  have th: "list_all validRating (map snd (calculateThemeAverages m))"
    using assms by (simp add: objectValues_def calculateThemeAverages_def validRating_def)
  have ov: "calculateOverallAverage m =
           (sharedVision m + strategy m + businessAlignment m + customerFocus m +
            crossFunctionalTeams m + clarityInPriorities m + acceptanceCriteria m +
            enablingFocus m + engagement m +
            feedback m + enablingAutonomy m + changeAndAmbiguity m + desiredCulture m +
            workAutonomously m +
            stakeholders m + teamAttrition m + teams m + developingPeople m +
            subordinatesForSuccess m) / 19"
    by (simp add: calculateOverallAverage_def objectValues_def)
  have names: "map fst (calculateThemeAverages m) =
           [''Strategic Vision'', ''Focus and Engagement'', ''Autonomy and Change'',
            ''Stakeholders and Team'']"
    by (simp add: calculateThemeAverages_def)
  show ?thesis using th ov names themeAverages_means overall_mean by blast
qed

text \<open>
  At the record with 3 everywhere every theme average and the overall average are 3. At
  the record with 5 in the four metrics of the first theme and 3 elsewhere the overall
  average is 65/19, while the mean of the four theme averages is 7/2.
\<close>

theorem averages_of_complete_record_witness:
  "calculateThemeAverages sampleMetrics =
     [(''Strategic Vision'', 3), (''Focus and Engagement'', 3), (''Autonomy and Change'', 3),
      (''Stakeholders and Team'', 3)] \<and>
   calculateOverallAverage sampleMetrics = 3 \<and>
   calculateOverallAverage (sampleMetrics\<lparr>sharedVision := 5, strategy := 5,
      businessAlignment := 5, customerFocus := 5\<rparr>) = 65 / 19 \<and>
   meanOfThemeAverages (sampleMetrics\<lparr>sharedVision := 5, strategy := 5,
      businessAlignment := 5, customerFocus := 5\<rparr>) = 7 / 2"
proof -
  let ?m = "sampleMetrics\<lparr>sharedVision := 5, strategy := 5, businessAlignment := 5,
      customerFocus := 5\<rparr>"
  have h3: "list_all validRating (objectValues sampleMetrics)"
    by (simp add: objectValues_def validRating_def sampleMetrics_def)
  have h5: "list_all validRating (objectValues ?m)"
    by (simp add: objectValues_def validRating_def sampleMetrics_def)
  have means3: "map (\<lambda>(t, ids). (t, meanRating sampleMetrics ids)) themes =
     [(''Strategic Vision'', 3), (''Focus and Engagement'', 3), (''Autonomy and Change'', 3),
      (''Stakeholders and Team'', 3)]"
    by (simp add: meanRating_def themes_def ratingOf_def allMetricIds_def objectValues_def
        sampleMetrics_def)
  have a: "calculateThemeAverages sampleMetrics =
     [(''Strategic Vision'', 3), (''Focus and Engagement'', 3), (''Autonomy and Change'', 3),
      (''Stakeholders and Team'', 3)]"
    using averages_of_complete_record [OF h3, THEN conjunct1] means3 by simp
  have b: "calculateOverallAverage sampleMetrics = 3"
    using averages_of_complete_record
      [OF h3, THEN conjunct2, THEN conjunct2, THEN conjunct2, THEN conjunct2]
    by (simp add: sampleMetrics_def)
  have c: "calculateOverallAverage ?m = 65 / 19"
    using averages_of_complete_record
      [OF h5, THEN conjunct2, THEN conjunct2, THEN conjunct2, THEN conjunct2]
    by (simp add: sampleMetrics_def)
  have d: "meanOfThemeAverages ?m = 7 / 2"
    by (simp add: meanOfThemeAverages_def calculateThemeAverages_def sampleMetrics_def)
  show ?thesis using a b c d by simp
qed

subsection \<open>The editing session: autosave and start new\<close>

lemmas app_defs = showErrorMessage_def showSuccessMessage_def updateChart_def saveToLocalStorage_def
  clearAll_def newAssessment_def

lemmas save_defs = saveToMongoDB_def saveToMongoDB_try_def showErrorMessage_def
  showSuccessMessage_def saveToLocalStorage_def

lemma map_filter_total:
  "\<forall>k \<in> set ks. f k \<noteq> None \<Longrightarrow> List.map_filter f ks = map (\<lambda>k. the (f k)) ks"
  by (induction ks) (auto simp: List.map_filter_simps split: option.splits)

lemma map_of_present: "k \<in> fst ` set f \<Longrightarrow> map_of f k \<noteq> None"
  by (simp add: map_of_eq_None_iff)

lemma collectFormData_full:
  assumes "set allMetricIds \<subseteq> fst ` set (inputForm s)"
  shows "collectFormData s =
           map (\<lambda>k. (k, parseIntOr0 (the (map_of (inputForm s) k)))) allMetricIds"
proof -
  have present: "map_of (inputForm s) k \<noteq> None" if "k \<in> set allMetricIds" for k
    using assms that by (intro map_of_present) blast
  have "\<forall>k \<in> set allMetricIds.
      (case map_of (inputForm s) k of None \<Rightarrow> None | Some v \<Rightarrow> Some (k, parseIntOr0 v)) \<noteq> None"
    using present by (auto split: option.splits)
  then have "collectFormData s =
      map (\<lambda>k. the (case map_of (inputForm s) k of None \<Rightarrow> None | Some v \<Rightarrow> Some (k, parseIntOr0 v)))
        allMetricIds"
    unfolding collectFormData_def by (rule map_filter_total)
  also have "\<dots> = map (\<lambda>k. (k, parseIntOr0 (the (map_of (inputForm s) k)))) allMetricIds"
    using present by (fastforce split: option.splits)
  finally show ?thesis .
qed

lemma parseIntOr0_empty: "parseIntOr0 [] = 0"
  by (simp add: parseIntOr0_def parseInt_def)

lemma saveToMongoDB_returns: "\<exists>s'. saveToMongoDB e s = Inr s'"
  by (auto simp: saveToMongoDB_def split: sum.splits prod.splits)

lemma saveToMongoDB_bound:
  assumes "currentAssessmentId s = Some i" and "saveToMongoDB e s = Inr s'"
  shows "currentAssessmentId s' = Some i \<and>
         (requests s' = requests s \<or> (\<exists>d. requests s' = requests s @ [UpdateRequest i d]))"
  using assms by (auto simp: save_defs Let_def split: if_splits sum.splits)

lemma saveAll_bound:
  "currentAssessmentId s = Some i \<Longrightarrow>
     currentAssessmentId (saveAll es s) = Some i \<and>
     (\<exists>rs. requests (saveAll es s) = requests s @ rs \<and> (\<forall>r \<in> set rs. \<exists>d. r = UpdateRequest i d))"
proof (induction es arbitrary: s)
  case Nil
  then show ?case by simp
next
  case (Cons e es)
  obtain s' where s': "saveToMongoDB e s = Inr s'"
    using saveToMongoDB_returns by blast
  from saveToMongoDB_bound [OF Cons.prems s']
  have b: "currentAssessmentId s' = Some i"
    and r: "requests s' = requests s \<or> (\<exists>d. requests s' = requests s @ [UpdateRequest i d])"
    by simp_all
  from Cons.IH [OF b] obtain rs where
    c: "currentAssessmentId (saveAll es s') = Some i"
    and rs: "requests (saveAll es s') = requests s' @ rs"
    and all: "\<forall>r \<in> set rs. \<exists>d. r = UpdateRequest i d"
    by blast
  from r show ?case
  proof
    assume "requests s' = requests s"
    with c rs all s' show ?thesis by auto
  next
    assume "\<exists>d. requests s' = requests s @ [UpdateRequest i d]"
    then obtain d where "requests s' = requests s @ [UpdateRequest i d]" ..
    with rs have "requests (saveAll es s') = requests s @ (UpdateRequest i d # rs)" by simp
    moreover have "\<forall>r \<in> set (UpdateRequest i d # rs). \<exists>d. r = UpdateRequest i d"
      using all by simp
    ultimately show ?thesis using c s' by auto
  qed
qed

lemma freshApp_page: "set allMetricIds \<subseteq> fst ` set (inputForm freshApp)"
  by (simp add: freshApp_def freshForm_def image_image)

text \<open>
  Claim C6, as stated, fails when the user is not logged in: saveToMongoDB then returns
  before building a request, so with no identity bound no create is issued. And the
  mapping that is sent has an entry only for the metrics whose input is found on the
  page: without the input \<open>teams\<close> the mapping has no entry \<open>teams\<close>, not 0.
\<close>

theorem autosave_create_counterexample:
  "currentAssessmentId freshApp = None \<and>
   map_sum id requests (saveToMongoDB offline freshApp) = Inr [] \<and>
   map_of (payloadMetrics
             (assessmentData online
                (freshApp\<lparr>inputForm := filter (\<lambda>(k, v). k \<noteq> ''teams'') freshForm\<rparr>)))
     ''teams'' = None"
proof -
  have "map_sum id requests (saveToMongoDB offline freshApp) = Inr []"
    by (simp add: save_defs offline_def freshApp_def)
  moreover have "map_of (payloadMetrics
             (assessmentData online
                (freshApp\<lparr>inputForm := filter (\<lambda>(k, v). k \<noteq> ''teams'') freshForm\<rparr>)))
     ''teams'' = None"
    by code_simp
  ultimately show ?thesis by (simp add: freshApp_def)
qed

text \<open>
  Claim C6, amended. For every autosave of a logged-in user on the page with its nineteen
  rating inputs: exactly one request is issued, a create when no identity is bound and
  an update of the bound identity otherwise; it carries the full metric mapping
  (\<open>parseInt(value) || 0\<close> for each metric, so 0 for an empty input) and the trimmed
  subject name, or \<open>Unknown\<close> when that is blank. After a successful create the
  returned identity is bound, stays bound through every later autosave, and every
  request of those autosaves is an update of that identity.
\<close>

theorem autosave_create_or_update:
  assumes auth: "authenticated e"
    and page: "set allMetricIds \<subseteq> fst ` set (inputForm s)"
  shows "\<exists>s'. saveToMongoDB e s = Inr s' \<and>
     requests s' = requests s @
       [case currentAssessmentId s of
          None \<Rightarrow> CreateRequest (assessmentData e s)
        | Some i \<Rightarrow> UpdateRequest i (assessmentData e s)] \<and>
     payloadMetrics (assessmentData e s) =
       map (\<lambda>k. (k, parseIntOr0 (the (map_of (inputForm s) k)))) allMetricIds \<and>
     payloadEmployeeName (assessmentData e s) =
       (case nameInput s of
          None \<Rightarrow> ''Unknown''
        | Some v \<Rightarrow> if trim v = [] then ''Unknown'' else trim v) \<and>
     (\<forall>newId. currentAssessmentId s = None \<and>
         api_createAssessment e (assessmentData e s) = Inr newId \<longrightarrow>
         currentAssessmentId s' = Some newId \<and>
         (\<forall>es. currentAssessmentId (saveAll es s') = Some newId \<and>
            (\<exists>rs. requests (saveAll es s') = requests s' @ rs \<and>
               (\<forall>r \<in> set rs. \<exists>d. r = UpdateRequest newId d))))"
proof -
  obtain s' where s': "saveToMongoDB e s = Inr s'"
    using saveToMongoDB_returns by blast
  have req: "requests s' = requests s @
       [case currentAssessmentId s of
          None \<Rightarrow> CreateRequest (assessmentData e s)
        | Some i \<Rightarrow> UpdateRequest i (assessmentData e s)]"
    using s' auth by (auto simp: save_defs Let_def split: option.splits sum.splits)
  have met: "payloadMetrics (assessmentData e s) =
       map (\<lambda>k. (k, parseIntOr0 (the (map_of (inputForm s) k)))) allMetricIds"
    by (simp add: assessmentData_def Let_def collectFormData_full [OF page])
  have nam: "payloadEmployeeName (assessmentData e s) =
       (case nameInput s of
          None \<Rightarrow> ''Unknown''
        | Some v \<Rightarrow> if trim v = [] then ''Unknown'' else trim v)"
    by (simp add: assessmentData_def Let_def split: option.splits)
  have bind: "currentAssessmentId s' = Some newId \<and>
         (\<forall>es. currentAssessmentId (saveAll es s') = Some newId \<and>
            (\<exists>rs. requests (saveAll es s') = requests s' @ rs \<and>
               (\<forall>r \<in> set rs. \<exists>d. r = UpdateRequest newId d)))"
    if "currentAssessmentId s = None" and "api_createAssessment e (assessmentData e s) = Inr newId"
    for newId
  proof -
    have "currentAssessmentId s' = Some newId"
      using s' auth that by (auto simp: save_defs Let_def split: option.splits sum.splits)
    then show ?thesis using saveAll_bound by blast
  qed
  show ?thesis using s' req met nam bind by blast
qed

theorem autosave_create_or_update_witness:
  "\<exists>s'. saveToMongoDB online freshApp = Inr s' \<and>
      requests s' =
        [CreateRequest
           \<lparr>payloadEmployeeName = ''Unknown'',
            payloadAssessmentDate = ''2024-03-05T10:11:12.000Z'',
            payloadMetrics = map (\<lambda>k. (k, 0)) allMetricIds\<rparr>] \<and>
      currentAssessmentId s' = Some (ObjectId ''65e6f0a1b2c3d4e5f6a7b8c9'')"
proof -
  have auth: "authenticated online" by (simp add: online_def)
  have none: "currentAssessmentId freshApp = None" by (simp add: freshApp_def)
  have data: "assessmentData online freshApp =
      \<lparr>payloadEmployeeName = ''Unknown'',
       payloadAssessmentDate = ''2024-03-05T10:11:12.000Z'',
       payloadMetrics = map (\<lambda>k. (k, 0)) allMetricIds\<rparr>"
    by (simp add: assessmentData_def collectFormData_full [OF freshApp_page] trim_def)
      (simp add: freshApp_def freshForm_def online_def map_of_map_restrict parseIntOr0_empty
        restrict_map_def trim_def cong: map_cong)
  have created: "api_createAssessment online (assessmentData online freshApp) =
      Inr (ObjectId ''65e6f0a1b2c3d4e5f6a7b8c9'')"
    by (simp add: online_def)
  from autosave_create_or_update [OF auth freshApp_page] obtain s' where
    "saveToMongoDB online freshApp = Inr s'"
    "requests s' = requests freshApp @ [CreateRequest (assessmentData online freshApp)]"
    "currentAssessmentId s' = Some (ObjectId ''65e6f0a1b2c3d4e5f6a7b8c9'')"
    using none created by auto
  then show ?thesis using data by (simp add: freshApp_def)
qed

text \<open>
  Claim C7, as stated, fails in two places. When the user is not logged in the fallback
  only writes to the console: no message is shown. And when \<open>localStorage.setItem\<close>
  throws, the error is swallowed and the local cache is not written.
\<close>

theorem autosave_failure_counterexample:
  "map_sum id messages (saveToMongoDB offline freshApp) = Inr [] \<and>
   map_sum id (\<lambda>s. localStorage s ''performanceAssessment'')
     (saveToMongoDB (offline\<lparr>authenticated := True, storageFails := True\<rparr>) freshApp) = Inr None"
  by (simp add: save_defs offline_def freshApp_def Let_def)

text \<open>
  Claim C7, amended. Every autosave returns normally and sends at most one request (no
  retry). When the user is not logged in, no request is sent, no message is shown and
  the fallback is logged to the console. When the API call fails with an error, the
  error message and the message \<open>Saved locally (offline mode)\<close> are shown. In both
  cases, unless the local storage refuses the write, the local cache then holds the
  current subject name and the current values of all inputs.
\<close>

theorem autosave_failure_fallback:
  "\<exists>s'. saveToMongoDB e s = Inr s' \<and>
     length (requests s') \<le> Suc (length (requests s)) \<and>
     (\<not> authenticated e \<longrightarrow>
        requests s' = requests s \<and> messages s' = messages s \<and>
        (\<exists>l. console s' = console s @ ''Not authenticated, saving to localStorage only'' # l)) \<and>
     (\<forall>err. authenticated e \<and> apiError e s = Some err \<longrightarrow>
        messages s' = messages s @
          [ErrorMessage (''Could not save to database: '' @ err),
           SuccessMessage ''Saved locally (offline mode)'']) \<and>
     ((\<not> authenticated e \<or> apiError e s \<noteq> None) \<and> \<not> storageFails e \<longrightarrow>
        localStorage s' ''performanceAssessment'' =
          Some \<lparr>cachedEmployeeName = employeeName s, cachedDate = now e,
                cachedFormData = inputForm s\<rparr>)"
  by (auto simp: save_defs apiError_def Let_def split: option.splits sum.splits)

theorem autosave_failure_fallback_witness:
  "\<exists>s'. saveToMongoDB (offline\<lparr>authenticated := True\<rparr>) freshApp = Inr s' \<and>
      messages s' =
        [ErrorMessage ''Could not save to database: Failed to fetch'',
         SuccessMessage ''Saved locally (offline mode)''] \<and>
      localStorage s' ''performanceAssessment'' =
        Some \<lparr>cachedEmployeeName = [], cachedDate = ''2024-03-05T10:11:12.000Z'',
              cachedFormData = freshForm\<rparr>"
proof -
  have a: "authenticated (offline\<lparr>authenticated := True\<rparr>)" by simp
  have b: "apiError (offline\<lparr>authenticated := True\<rparr>) freshApp = Some ''Failed to fetch''"
    by (simp add: apiError_def offline_def freshApp_def)
  have c: "\<not> storageFails (offline\<lparr>authenticated := True\<rparr>)" by (simp add: offline_def)
  from autosave_failure_fallback [of "offline\<lparr>authenticated := True\<rparr>" freshApp]
  show ?thesis using a b c by (auto simp: freshApp_def offline_def)
qed

text \<open>
  Claim C10. Starting a new assessment clears the bound identity, sets every rating
  input to 0 and removes the \<open>performanceAssessment\<close> item from the local storage,
  so the record cached before is no longer there.
\<close>

theorem newAssessment_clears_cache:
  "localStorage (newAssessment s) ''performanceAssessment'' = None \<and>
   currentAssessmentId (newAssessment s) = None \<and>
   inputForm (newAssessment s) = map (\<lambda>(k, v). (k, ''0'')) (inputForm s)"
  by (simp add: app_defs numberToString_def natToString.simps digitChar_def Let_def
      split: option.split)

theorem newAssessment_clears_cache_witness:
  "localStorage
     (freshApp\<lparr>localStorage :=
        [''performanceAssessment'' \<mapsto>
           \<lparr>cachedEmployeeName = ''Jane Doe'', cachedDate = ''2024-03-05T10:11:12.000Z'',
            cachedFormData = [(''sharedVision'', ''4'')]\<rparr>]\<rparr>)
     ''performanceAssessment'' \<noteq> None \<and>
   localStorage
     (newAssessment
        (freshApp\<lparr>localStorage :=
           [''performanceAssessment'' \<mapsto>
              \<lparr>cachedEmployeeName = ''Jane Doe'', cachedDate = ''2024-03-05T10:11:12.000Z'',
               cachedFormData = [(''sharedVision'', ''4'')]\<rparr>]\<rparr>))
     ''performanceAssessment'' = None"
  using newAssessment_clears_cache
    [of "freshApp\<lparr>localStorage :=
        [''performanceAssessment'' \<mapsto>
           \<lparr>cachedEmployeeName = ''Jane Doe'', cachedDate = ''2024-03-05T10:11:12.000Z'',
            cachedFormData = [(''sharedVision'', ''4'')]\<rparr>]\<rparr>"]
  by simp

subsection \<open>CSV import\<close>

lemma splitOn_not_Nil: "splitOn sep s \<noteq> []"
  by (induction s) (auto split: list.splits)

lemma map_fst_setValue: "map fst (setValue k v f) = map fst f"
  by (induction f) auto

lemma map_of_setValue:
  "map_of (setValue k v f) k' = (if k' = k \<and> map_of f k \<noteq> None then Some v else map_of f k')"
  by (induction f) auto

lemma loadRow_cases:
  "loadRow l (f, n, w) =
     (if blankRow l then (f, n, w)
      else if rowCategory l \<notin> set allMetricIds then
        (f, n, w @ [''Unknown category in CSV: '' @ rowCategory l])
      else if map_of f (rowCategory l) = None then (f, n, w)
      else (setValue (rowCategory l) (numberToString (validateInput (rowRating l))) f, Suc n, w))"
proof (cases "map trim (splitOn CHR '','' (trim l))")
  case Nil
  then show ?thesis using splitOn_not_Nil by simp
next
  case (Cons c rest)
  then show ?thesis
    by (cases rest)
      (auto simp: loadRow_def blankRow_def rowCategory_def rowRating_def rowColumns_def Let_def)
qed

lemma fold_loadRow:
  "\<exists>f'. fold loadRow rows (f, n, w) =
          (f', n + length (filter (recognizedRow f) rows),
           w @ map (\<lambda>l. ''Unknown category in CSV: '' @ rowCategory l) (filter unknownRow rows)) \<and>
        map fst f' = map fst f \<and>
        (\<forall>k. map_of f' k =
           (case importedValue f rows k of None \<Rightarrow> map_of f k | Some x \<Rightarrow> Some x))"
proof (induction rows rule: rev_induct)
  case Nil
  show ?case by (simp add: importedValue_def Let_def)
next
  case (snoc l rows)
  then obtain f1 where
    f1: "fold loadRow rows (f, n, w) =
          (f1, n + length (filter (recognizedRow f) rows),
           w @ map (\<lambda>l. ''Unknown category in CSV: '' @ rowCategory l) (filter unknownRow rows))"
    and keys: "map fst f1 = map fst f"
    and vals: "\<And>k. map_of f1 k =
           (case importedValue f rows k of None \<Rightarrow> map_of f k | Some x \<Rightarrow> Some x)"
    by blast
  have none_iff: "(map_of f1 k = None) = (map_of f k = None)" for k
    using keys by (metis map_of_eq_None_iff set_map)
  show ?case
  proof (cases "recognizedRow f l")
    case True
    then have nb: "\<not> blankRow l" and known: "rowCategory l \<in> set allMetricIds"
      and present: "map_of f1 (rowCategory l) \<noteq> None"
      by (simp_all add: recognizedRow_def none_iff)
    have nu: "\<not> unknownRow l" using known by (simp add: unknownRow_def)
    let ?v = "numberToString (validateInput (rowRating l))"
    have step: "fold loadRow (rows @ [l]) (f, n, w) =
        (setValue (rowCategory l) ?v f1, n + length (filter (recognizedRow f) (rows @ [l])),
         w @ map (\<lambda>l. ''Unknown category in CSV: '' @ rowCategory l)
               (filter unknownRow (rows @ [l])))"
      using f1 nb known present nu True by (simp add: loadRow_cases)
    have iv: "importedValue f (rows @ [l]) k =
        (if k = rowCategory l then Some ?v else importedValue f rows k)" for k
      using True by (simp add: importedValue_def Let_def)
    have "map_of (setValue (rowCategory l) ?v f1) k =
        (case importedValue f (rows @ [l]) k of None \<Rightarrow> map_of f k | Some x \<Rightarrow> Some x)" for k
      using present by (simp add: map_of_setValue iv vals)
    then show ?thesis using step keys by (simp add: map_fst_setValue)
  next
    case False
    have iv: "importedValue f (rows @ [l]) k = importedValue f rows k" for k
      using False by (simp add: importedValue_def Let_def)
    have step: "fold loadRow (rows @ [l]) (f, n, w) =
        (f1, n + length (filter (recognizedRow f) (rows @ [l])),
         w @ map (\<lambda>l. ''Unknown category in CSV: '' @ rowCategory l)
               (filter unknownRow (rows @ [l])))"
      using f1 False none_iff [of "rowCategory l"]
      by (auto simp: loadRow_cases recognizedRow_def unknownRow_def)
    show ?thesis using step keys vals by (simp add: iv)
  qed
qed


text \<open>
  Claim C4, amended. For every CSV text: when the trimmed text has fewer than two lines
  the import fails with the error \<open>CSV file is empty or invalid\<close>, whatever the
  header is. Otherwise, when the lower-cased header lacks \<open>categories\<close> or
  \<open>ratings\<close> it fails with the header error, whatever the rows are. Otherwise the
  rows with an unknown category are skipped, each with a warning on the console; each
  row of a known metric that has an input on the page stores numberToString
  (validateInput rating) in that input, the last such row of a metric winning; the
  import fails with \<open>No valid data found in CSV file\<close> exactly when there is no such
  row, and otherwise reports the number of such rows.
\<close>

theorem parseAndLoadCSV_outcome:
  "(case splitOn (CHR 0x0A) (trim content) of
      h # r # rows \<Rightarrow>
        if \<not> includesStr (toLowerCase h) ''categories'' \<or>
           \<not> includesStr (toLowerCase h) ''ratings'' then
          parseAndLoadCSV e content s = Inl InvalidHeader
        else if filter (recognizedRow (inputForm s)) (r # rows) = [] then
          parseAndLoadCSV e content s = Inl NoValidData
        else
          (\<exists>s'. parseAndLoadCSV e content s = Inr s' \<and>
             map fst (inputForm s') = map fst (inputForm s) \<and>
             (\<forall>k. map_of (inputForm s') k =
                (case importedValue (inputForm s) (r # rows) k of
                   None \<Rightarrow> map_of (inputForm s) k
                 | Some x \<Rightarrow> Some x)) \<and>
             (\<exists>more. console s' = console s @
                map (\<lambda>l. ''Unknown category in CSV: '' @ rowCategory l)
                  (filter unknownRow (r # rows)) @ more) \<and>
             messages s' = messages s @
               [SuccessMessage
                  (''Successfully loaded '' @
                   natToString (length (filter (recognizedRow (inputForm s)) (r # rows))) @
                   '' ratings from CSV'')])
    | _ \<Rightarrow> parseAndLoadCSV e content s = Inl EmptyOrInvalid)"
proof (cases "splitOn (CHR 0x0A) (trim content)")
  case Nil
  then show ?thesis by (simp add: parseAndLoadCSV_def)
next
  case (Cons h rest)
  show ?thesis
  proof (cases rest)
    case Nil
    with Cons show ?thesis by (simp add: parseAndLoadCSV_def)
  next
    case (Cons r rows)
    note lines = \<open>splitOn (CHR 0x0A) (trim content) = h # rest\<close> Cons
    obtain f' where
      fold: "fold loadRow (r # rows) (inputForm s, 0, []) =
          (f', 0 + length (filter (recognizedRow (inputForm s)) (r # rows)),
           [] @ map (\<lambda>l. ''Unknown category in CSV: '' @ rowCategory l)
                  (filter unknownRow (r # rows)))"
      and keys: "map fst f' = map fst (inputForm s)"
      and vals: "\<forall>k. map_of f' k =
           (case importedValue (inputForm s) (r # rows) k of
              None \<Rightarrow> map_of (inputForm s) k
            | Some x \<Rightarrow> Some x)"
      using fold_loadRow [of "r # rows" "inputForm s" 0 "[]"] by blast
    show ?thesis
    proof (cases "\<not> includesStr (toLowerCase h) ''categories'' \<or>
           \<not> includesStr (toLowerCase h) ''ratings''")
      case True
      then show ?thesis using lines by (auto simp: parseAndLoadCSV_def)
    next
      case hdr: False
      show ?thesis
      proof (cases "filter (recognizedRow (inputForm s)) (r # rows) = []")
        case True
        then show ?thesis
          using lines hdr fold by (simp add: parseAndLoadCSV_def del: fold_simps filter.simps)
      next
        case False
        then have "parseAndLoadCSV e content s =
            Inr (showSuccessMessage
                   (''Successfully loaded '' @
                    natToString (length (filter (recognizedRow (inputForm s)) (r # rows))) @
                    '' ratings from CSV'')
                   (saveToLocalStorage e
                      (updateChart
                         (s\<lparr>inputForm := f',
                            console := console s @
                              map (\<lambda>l. ''Unknown category in CSV: '' @ rowCategory l)
                                (filter unknownRow (r # rows))\<rparr>))))"
          using lines hdr fold by (simp add: parseAndLoadCSV_def del: fold_simps filter.simps)
        moreover have "\<not> (\<not> includesStr (toLowerCase h) ''categories'' \<or>
           \<not> includesStr (toLowerCase h) ''ratings'')" using hdr .
        ultimately show ?thesis
          using lines False keys vals
          by (simp add: showSuccessMessage_def saveToLocalStorage_def updateChart_def
              del: fold_simps filter.simps split: option.splits)
      qed
    qed
  qed
qed



lemmas row_defs = rowCategory_def rowRating_def rowColumns_def blankRow_def trim_def
  isWhiteSpace_def

lemma sample_metric_ids: "''teams'' \<in> set allMetricIds \<and> ''foo'' \<notin> set allMetricIds"
  by (simp add: allMetricIds_def themes_def)

lemma sample_teams_input: "map_of (inputForm freshApp) ''teams'' = Some []"
  by (simp add: freshApp_def freshForm_def allMetricIds_def themes_def)

lemma fresh_messages: "messages freshApp = []"
  by (simp add: freshApp_def)

lemma sample_row_teams:
  "rowCategory ''teams,7.5'' = ''teams'' \<and> rowRating ''teams,7.5'' = ''7.5'' \<and>
   \<not> blankRow ''teams,7.5''"
  by (simp add: row_defs)

lemma sample_row_foo: "rowCategory ''foo,1'' = ''foo'' \<and> \<not> blankRow ''foo,1''"
  by (simp add: row_defs)

lemma sample_header:
  "includesStr (toLowerCase ''Categories,Ratings'') ''categories'' \<and>
   includesStr (toLowerCase ''Categories,Ratings'') ''ratings'' \<and>
   \<not> includesStr (toLowerCase ''Foo,Bar'') ''categories''"
  by (simp add: toLowerCase_def)

text \<open>
  Claim C4, as stated, fails for a text that is only a header: the check for fewer than
  two lines comes first, so \<open>Foo,Bar\<close> without rows fails with the empty-or-invalid
  error, not with the header error.
\<close>

theorem parseAndLoadCSV_counterexample:
  "\<not> includesStr (toLowerCase ''Foo,Bar'') ''categories'' \<and>
   parseAndLoadCSV online ''Foo,Bar'' freshApp = Inl EmptyOrInvalid \<and>
   parseAndLoadCSV online ''Foo,Bar'' freshApp \<noteq> Inl InvalidHeader"
  by (simp add: parseAndLoadCSV_def trim_def isWhiteSpace_def toLowerCase_def)

theorem parseAndLoadCSV_outcome_witness:
  "parseAndLoadCSV online (''Foo,Bar'' @ CHR 0x0A # ''teams,3'') freshApp = Inl InvalidHeader \<and>
   parseAndLoadCSV online (''Categories,Ratings'' @ CHR 0x0A # ''foo,1'') freshApp = Inl NoValidData \<and>
   parseAndLoadCSV online ''categories,ratings'' freshApp = Inl EmptyOrInvalid \<and>
   (\<exists>s'. parseAndLoadCSV online
            (''Categories,Ratings'' @ CHR 0x0A # ''teams,7.5'' @ CHR 0x0A # ''foo,1'') freshApp = Inr s' \<and>
         map_of (inputForm s') ''teams'' = Some ''5'' \<and>
         messages s' = [SuccessMessage ''Successfully loaded 1 ratings from CSV''])"
proof -
  have la: "splitOn (CHR 0x0A) (trim (''Foo,Bar'' @ CHR 0x0A # ''teams,3'')) =
      [''Foo,Bar'', ''teams,3'']"
    by (simp add: trim_def isWhiteSpace_def)
  have a: "parseAndLoadCSV online (''Foo,Bar'' @ CHR 0x0A # ''teams,3'') freshApp =
      Inl InvalidHeader"
    using parseAndLoadCSV_outcome
      [where content = "''Foo,Bar'' @ CHR 0x0A # ''teams,3''" and e = online and s = freshApp]
    unfolding la by (simp add: sample_header)
  have lb: "splitOn (CHR 0x0A) (trim (''Categories,Ratings'' @ CHR 0x0A # ''foo,1'')) =
      [''Categories,Ratings'', ''foo,1'']"
    by (simp add: trim_def isWhiteSpace_def)
  have nr: "\<not> recognizedRow (inputForm freshApp) ''foo,1''"
    by (simp add: recognizedRow_def sample_row_foo sample_metric_ids)
  have b: "parseAndLoadCSV online (''Categories,Ratings'' @ CHR 0x0A # ''foo,1'') freshApp =
      Inl NoValidData"
    using parseAndLoadCSV_outcome
      [where content = "''Categories,Ratings'' @ CHR 0x0A # ''foo,1''" and e = online
        and s = freshApp]
    unfolding lb by (simp add: sample_header nr)
  have lc: "splitOn (CHR 0x0A) (trim ''categories,ratings'') = [''categories,ratings'']"
    by (simp add: trim_def isWhiteSpace_def)
  have c: "parseAndLoadCSV online ''categories,ratings'' freshApp = Inl EmptyOrInvalid"
    using parseAndLoadCSV_outcome
      [where content = "''categories,ratings''" and e = online and s = freshApp]
    unfolding lc by simp
  have ld: "splitOn (CHR 0x0A)
      (trim (''Categories,Ratings'' @ CHR 0x0A # ''teams,7.5'' @ CHR 0x0A # ''foo,1'')) =
      [''Categories,Ratings'', ''teams,7.5'', ''foo,1'']"
    by (simp add: trim_def isWhiteSpace_def)
  have rr: "recognizedRow (inputForm freshApp) ''teams,7.5''"
    by (simp add: recognizedRow_def sample_row_teams sample_metric_ids sample_teams_input)
  have v: "numberToString (validateInput ''7.5'') = ''5''"
    by (simp add: parse_defs validate_defs numberToString_def natToString.simps digitChar_def)
  have iv: "importedValue (inputForm freshApp) [''teams,7.5'', ''foo,1''] ''teams'' = Some ''5''"
    by (simp add: importedValue_def rr nr sample_row_teams v)
  have n1: "natToString (Suc 0) = ''1''"
    by (simp add: natToString.simps digitChar_def)
  from parseAndLoadCSV_outcome
      [where content = "''Categories,Ratings'' @ CHR 0x0A # ''teams,7.5'' @ CHR 0x0A # ''foo,1''"
        and e = online and s = freshApp]
  obtain s' where
    "parseAndLoadCSV online
       (''Categories,Ratings'' @ CHR 0x0A # ''teams,7.5'' @ CHR 0x0A # ''foo,1'') freshApp = Inr s'"
    "\<forall>k. map_of (inputForm s') k =
       (case importedValue (inputForm freshApp) [''teams,7.5'', ''foo,1''] k of
          None \<Rightarrow> map_of (inputForm freshApp) k
        | Some x \<Rightarrow> Some x)"
    "messages s' = messages freshApp @ [SuccessMessage ''Successfully loaded 1 ratings from CSV'']"
    unfolding ld by (auto simp: sample_header rr nr n1)
  then have d: "\<exists>s'. parseAndLoadCSV online
            (''Categories,Ratings'' @ CHR 0x0A # ''teams,7.5'' @ CHR 0x0A # ''foo,1'') freshApp = Inr s' \<and>
         map_of (inputForm s') ''teams'' = Some ''5'' \<and>
         messages s' = [SuccessMessage ''Successfully loaded 1 ratings from CSV'']"
    by (auto simp: iv fresh_messages)
  show ?thesis using a b c d by simp
qed


subsection \<open>CSV export followed by import\<close>

lemma parseAndLoadCSV_success:
  assumes lines: "splitOn (CHR 0x0A) (trim content) = h # r # rows"
    and header: "includesStr (toLowerCase h) ''categories''" "includesStr (toLowerCase h) ''ratings''"
    and some: "filter (recognizedRow (inputForm s)) (r # rows) \<noteq> []"
  shows "\<exists>s'. parseAndLoadCSV e content s = Inr s' \<and>
           map fst (inputForm s') = map fst (inputForm s) \<and>
           (\<forall>k. map_of (inputForm s') k =
              (case importedValue (inputForm s) (r # rows) k of
                 None \<Rightarrow> map_of (inputForm s) k
               | Some x \<Rightarrow> Some x))"
proof -
  obtain f' where
    fold: "fold loadRow (r # rows) (inputForm s, 0, []) =
        (f', 0 + length (filter (recognizedRow (inputForm s)) (r # rows)),
         [] @ map (\<lambda>l. ''Unknown category in CSV: '' @ rowCategory l)
                (filter unknownRow (r # rows)))"
    and keys: "map fst f' = map fst (inputForm s)"
    and vals: "\<forall>k. map_of f' k =
         (case importedValue (inputForm s) (r # rows) k of
            None \<Rightarrow> map_of (inputForm s) k
          | Some x \<Rightarrow> Some x)"
    using fold_loadRow [of "r # rows" "inputForm s" 0 "[]"] by blast
  have "parseAndLoadCSV e content s =
      Inr (showSuccessMessage
             (''Successfully loaded '' @
              natToString (length (filter (recognizedRow (inputForm s)) (r # rows))) @
              '' ratings from CSV'')
             (saveToLocalStorage e
                (updateChart
                   (s\<lparr>inputForm := f',
                      console := console s @
                        map (\<lambda>l. ''Unknown category in CSV: '' @ rowCategory l)
                          (filter unknownRow (r # rows))\<rparr>))))"
    using lines header some fold by (simp add: parseAndLoadCSV_def del: fold_simps filter.simps)
  then show ?thesis
    using keys vals
    by (simp add: showSuccessMessage_def saveToLocalStorage_def updateChart_def
        del: fold_simps filter.simps split: option.splits)
qed

lemma foldl_csv:
  "foldl (\<lambda>csv (key, value). csv @ key @ '','' @ value @ [CHR 0x0A]) acc es =
     acc @ concat (map (\<lambda>(k, v). (k @ CHR '','' # v) @ [CHR 0x0A]) es)"
  by (induction es arbitrary: acc) (auto simp: case_prod_beta)

lemma concat_lines:
  "ls \<noteq> [] \<Longrightarrow> concat (map (\<lambda>l. l @ [CHR 0x0A]) ls) = joinLines ls @ [CHR 0x0A]"
  by (induction ls rule: joinLines.induct) auto

lemma splitOn_plain: "sep \<notin> set a \<Longrightarrow> splitOn sep a = [a]"
  by (induction a) auto

lemma splitOn_append: "sep \<notin> set a \<Longrightarrow> splitOn sep (a @ sep # b) = a # splitOn sep b"
  by (induction a) auto

lemma splitOn_joinLines:
  "ls \<noteq> [] \<Longrightarrow> \<forall>l \<in> set ls. CHR 0x0A \<notin> set l \<Longrightarrow> splitOn (CHR 0x0A) (joinLines ls) = ls"
  by (induction ls rule: joinLines.induct) (auto simp: splitOn_plain splitOn_append)

lemma trim_plain: "\<forall>c \<in> set s. \<not> isWhiteSpace c \<Longrightarrow> trim s = s"
proof -
  assume a: "\<forall>c \<in> set s. \<not> isWhiteSpace c"
  then have "dropWhile isWhiteSpace s = s" by (cases s) auto
  moreover from a have "dropWhile isWhiteSpace (rev s) = rev s" by (cases "rev s") auto
  ultimately show ?thesis by (simp add: trim_def)
qed

lemma trim_line_feed:
  assumes "a \<noteq> []" and "\<not> isWhiteSpace (hd a)" and "\<not> isWhiteSpace (last a)"
  shows "trim (a @ [CHR 0x0A]) = a"
proof -
  have "dropWhile isWhiteSpace (a @ [CHR 0x0A]) = a @ [CHR 0x0A]"
    using assms by (cases a) auto
  moreover have "isWhiteSpace (CHR 0x0A)" by (simp add: isWhiteSpace_def)
  moreover have "dropWhile isWhiteSpace (rev a) = rev a"
    using assms by (cases a rule: rev_cases) auto
  ultimately show ?thesis by (simp add: trim_def)
qed

lemma hd_joinLines: "l \<noteq> [] \<Longrightarrow> hd (joinLines (l # ls)) = hd l"
  by (cases ls) auto

lemma last_joinLines:
  "ls \<noteq> [] \<Longrightarrow> last ls \<noteq> [] \<Longrightarrow>
     joinLines ls \<noteq> [] \<and> last (joinLines ls) = last (last ls)"
  by (induction ls rule: joinLines.induct) auto

lemma rating_cases: "n \<le> 5 \<Longrightarrow> n = 0 \<or> n = 1 \<or> n = 2 \<or> n = 3 \<or> n = 4 \<or> n = (5::nat)"
  by arith

lemma rating_digit:
  "n \<le> 5 \<Longrightarrow> natToString n = [digitChar n] \<and> digitChar n \<in> set ''012345''"
  by (drule rating_cases) (elim disjE; simp add: natToString.simps digitChar_def)

lemma rating_parse: "n \<le> 5 \<Longrightarrow> parseFloat (natToString n) = Fin (of_nat n)"
  by (drule rating_cases) (elim disjE; simp add: natToString.simps digitChar_def parse_defs)

lemma rating_int: "n \<le> 5 \<Longrightarrow> parseIntOr0 (natToString n) = int n"
  by (drule rating_cases)
    (elim disjE; simp add: natToString.simps digitChar_def parseIntOr0_def parseInt_def
      isWhiteSpace_def isDigit_def digitVal_def digitsVal_def)

lemma rating_string: "n \<le> 5 \<Longrightarrow> numberToString (Fin (of_nat n)) = natToString n"
  by (simp add: numberToString_def)

lemma rating_value:
  "n \<le> 5 \<Longrightarrow> numberToString (validateInput (natToString n)) = natToString n"
  by (simp add: validate_defs rating_parse rating_string)

lemma metric_id_chars:
  "k \<in> set allMetricIds \<Longrightarrow>
     k \<noteq> [] \<and> (\<forall>c \<in> set k. \<not> isWhiteSpace c \<and> c \<noteq> CHR '','')"
  by (auto simp: allMetricIds_def themes_def isWhiteSpace_def)

lemma exported_row:
  assumes k: "k \<in> set allMetricIds" and n: "n \<le> 5"
  shows "rowCategory (k @ CHR '','' # natToString n) = k \<and>
         rowRating (k @ CHR '','' # natToString n) = natToString n \<and>
         \<not> blankRow (k @ CHR '','' # natToString n) \<and>
         CHR 0x0A \<notin> set (k @ CHR '','' # natToString n) \<and>
         \<not> isWhiteSpace (last (k @ CHR '','' # natToString n))"
proof -
  let ?v = "natToString n"
  from rating_digit [OF n] have v: "?v = [digitChar n]" and d: "digitChar n \<in> set ''012345''"
    by simp_all
  from metric_id_chars [OF k] have k0: "k \<noteq> []"
    and kc: "\<forall>c \<in> set k. \<not> isWhiteSpace c \<and> c \<noteq> CHR '',''" by simp_all
  have dw: "\<not> isWhiteSpace (digitChar n)" and dc: "digitChar n \<noteq> CHR '',''"
    using d by (auto simp: isWhiteSpace_def)
  have plain_row: "\<forall>c \<in> set (k @ CHR '','' # ?v). \<not> isWhiteSpace c"
    using kc dw by (auto simp: v isWhiteSpace_def)
  then have t: "trim (k @ CHR '','' # ?v) = k @ CHR '','' # ?v" by (rule trim_plain)
  have comma: "CHR '','' \<notin> set k" using kc by auto
  have "splitOn CHR '','' (k @ CHR '','' # ?v) = [k, ?v]"
    using comma dc by (simp add: splitOn_append v)
  moreover have "trim k = k" using kc by (intro trim_plain) simp
  moreover have "trim ?v = ?v" using dw by (intro trim_plain) (simp add: v)
  ultimately have cols: "rowColumns (k @ CHR '','' # ?v) = [k, ?v]"
    by (simp add: rowColumns_def t)
  have lf: "isWhiteSpace (CHR 0x0A)" by (simp add: isWhiteSpace_def)
  have "CHR 0x0A \<notin> set (k @ CHR '','' # ?v)" using plain_row lf by blast
  then show ?thesis
    using cols t dw by (simp add: rowCategory_def rowRating_def blankRow_def v)
qed

lemma map_of_map_key:
  "k \<in> set ks \<Longrightarrow> map_of (map (\<lambda>k. (k, g k)) ks) k = Some (g k)"
  by (induction ks) auto

lemma header_tokens:
  "includesStr (toLowerCase ''Categories,Ratings'') ''categories'' \<and>
   includesStr (toLowerCase ''Categories,Ratings'') ''ratings''"
  by (simp add: toLowerCase_def)

lemma allMetricIds_not_Nil: "allMetricIds \<noteq> []"
  by (simp add: allMetricIds_def themes_def)


lemma exported_csv:
  assumes valid: "\<forall>k \<in> set allMetricIds. r k \<le> 5"
    and exported: "inputForm s0 = map (\<lambda>k. (k, natToString (r k))) allMetricIds"
  shows "splitOn (CHR 0x0A) (trim (csvContent (saveToCSV e0 s0))) =
           ''Categories,Ratings'' # map (\<lambda>k. k @ CHR '','' # natToString (r k)) allMetricIds"
proof -
  let ?row = "\<lambda>k. k @ CHR '','' # natToString (r k)"
  let ?rows = "map ?row allMetricIds"
  let ?h = "''Categories,Ratings''"
  have row: "CHR 0x0A \<notin> set (?row k) \<and> \<not> isWhiteSpace (last (?row k))"
    if "k \<in> set allMetricIds" for k
    using exported_row [OF that, of "r k"] valid that by blast
  have "csvContent (saveToCSV e0 s0) =
      (?h @ [CHR 0x0A]) @
      concat (map (\<lambda>(k, v). (k @ CHR '','' # v) @ [CHR 0x0A]) (inputForm s0))"
    unfolding saveToCSV_def formEntries_def foldl_csv by simp
  then have "csvContent (saveToCSV e0 s0) = concat (map (\<lambda>l. l @ [CHR 0x0A]) (?h # ?rows))"
    by (simp add: exported comp_def)
  then have csv: "csvContent (saveToCSV e0 s0) = joinLines (?h # ?rows) @ [CHR 0x0A]"
    by (simp only: concat_lines [of "?h # ?rows"] list.distinct not_False_eq_True)
  have rows_ne: "?rows \<noteq> []" using allMetricIds_not_Nil by simp
  have "last (?h # ?rows) = ?row (last allMetricIds)"
    using rows_ne allMetricIds_not_Nil by (simp add: last_map)
  moreover have "last allMetricIds \<in> set allMetricIds"
    using allMetricIds_not_Nil by simp
  ultimately have lastrow: "last (?h # ?rows) \<noteq> []"
      "\<not> isWhiteSpace (last (last (?h # ?rows)))"
    using row by auto
  have j: "joinLines (?h # ?rows) \<noteq> []"
      "last (joinLines (?h # ?rows)) = last (last (?h # ?rows))"
    using last_joinLines [of "?h # ?rows"] lastrow(1) by simp_all
  have "hd (joinLines (?h # ?rows)) = CHR ''C''"
    by (simp add: hd_joinLines)
  then have "\<not> isWhiteSpace (hd (joinLines (?h # ?rows)))"
    by (simp add: isWhiteSpace_def)
  then have t: "trim (csvContent (saveToCSV e0 s0)) = joinLines (?h # ?rows)"
    unfolding csv using j lastrow(2) by (intro trim_line_feed) simp_all
  have "\<forall>l \<in> set (?h # ?rows). CHR 0x0A \<notin> set l"
    using row by auto
  then have "splitOn (CHR 0x0A) (joinLines (?h # ?rows)) = ?h # ?rows"
    by (intro splitOn_joinLines) simp_all
  then show ?thesis by (simp only: t)
qed

text \<open>
  Claim C2. Let r map each of the nineteen metric identifiers to an integer in [0,5],
  and let the page that exports hold r in its inputs. Importing the exported CSV (the
  header, then one line \<open>metricId,rating\<close> per metric) into a page with the nineteen
  inputs succeeds, every input then holds the rating of r, and the metric mapping
  collected from the importing page is exactly r, the mapping of the exporting page.
\<close>

theorem csv_round_trip:
  fixes r :: "string \<Rightarrow> nat"
  assumes valid: "\<forall>k \<in> set allMetricIds. r k \<le> 5"
    and exported: "inputForm s0 = map (\<lambda>k. (k, natToString (r k))) allMetricIds"
    and page: "set allMetricIds \<subseteq> fst ` set (inputForm s)"
  shows "\<exists>s'. parseAndLoadCSV e (csvContent (saveToCSV e0 s0)) s = Inr s' \<and>
           (\<forall>k \<in> set allMetricIds. map_of (inputForm s') k = Some (natToString (r k))) \<and>
           collectFormData s' = map (\<lambda>k. (k, int (r k))) allMetricIds \<and>
           collectFormData s0 = map (\<lambda>k. (k, int (r k))) allMetricIds"
proof -
  let ?row = "\<lambda>k. k @ CHR '','' # natToString (r k)"
  let ?rows = "map ?row allMetricIds"
  let ?f = "inputForm s"
  have row: "rowCategory (?row k) = k \<and> rowRating (?row k) = natToString (r k) \<and>
      \<not> blankRow (?row k)" if "k \<in> set allMetricIds" for k
    using exported_row [OF that, of "r k"] valid that by blast
  have present: "map_of ?f k \<noteq> None" if "k \<in> set allMetricIds" for k
    using page that by (intro map_of_present) blast
  have recognized: "recognizedRow ?f (?row k)" if "k \<in> set allMetricIds" for k
    using row [OF that] present [OF that] that by (simp add: recognizedRow_def)
  obtain k1 ks where ids: "allMetricIds = k1 # ks"
    using allMetricIds_not_Nil by (cases allMetricIds) auto
  have lines: "splitOn (CHR 0x0A) (trim (csvContent (saveToCSV e0 s0))) =
      ''Categories,Ratings'' # ?row k1 # map ?row ks"
    using exported_csv [OF valid exported, of e0] by (simp add: ids)
  have rows: "?row k1 # map ?row ks = ?rows" by (simp add: ids)
  have some: "filter (recognizedRow ?f) (?row k1 # map ?row ks) \<noteq> []"
    using recognized [of k1] by (simp add: ids)
  from parseAndLoadCSV_success [OF lines header_tokens [THEN conjunct1]
      header_tokens [THEN conjunct2] some, of e]
  obtain s' where res: "parseAndLoadCSV e (csvContent (saveToCSV e0 s0)) s = Inr s'"
    and keys: "map fst (inputForm s') = map fst ?f"
    and vals: "\<And>k. map_of (inputForm s') k =
        (case importedValue ?f ?rows k of None \<Rightarrow> map_of ?f k | Some x \<Rightarrow> Some x)"
    unfolding rows by blast
  have imported: "importedValue ?f ?rows k = Some (natToString (r k))"
    if k: "k \<in> set allMetricIds" for k
  proof -
    have "filter (\<lambda>l. recognizedRow ?f l \<and> rowCategory l = k) ?rows =
        map ?row (filter (\<lambda>k'. k' = k) allMetricIds)"
      unfolding filter_map comp_def
      using recognized row by (intro arg_cong [where f = "map ?row"] filter_cong) auto
    moreover have ne: "filter (\<lambda>k'. k' = k) allMetricIds \<noteq> []"
      using k by (simp add: filter_empty_conv)
    moreover have "last (filter (\<lambda>k'. k' = k) allMetricIds) = k"
      using last_in_set [OF ne] by simp
    ultimately show ?thesis
      using row [OF k] valid k
      by (simp add: importedValue_def Let_def last_map rating_value)
  qed
  have loaded: "map_of (inputForm s') k = Some (natToString (r k))"
    if "k \<in> set allMetricIds" for k
    using vals [of k] imported [OF that] by simp
  have "fst ` set (inputForm s') = fst ` set ?f"
    using keys by (metis set_map)
  then have page': "set allMetricIds \<subseteq> fst ` set (inputForm s')" using page by simp
  have c1: "collectFormData s' = map (\<lambda>k. (k, int (r k))) allMetricIds"
    unfolding collectFormData_full [OF page']
    using loaded valid by (intro map_cong) (auto simp: rating_int)
  have page0: "set allMetricIds \<subseteq> fst ` set (inputForm s0)"
    by (simp add: exported image_image)
  have c0: "collectFormData s0 = map (\<lambda>k. (k, int (r k))) allMetricIds"
    unfolding collectFormData_full [OF page0]
    using valid by (intro map_cong) (auto simp: exported map_of_map_key rating_int)
  show ?thesis using res loaded c1 c0 by blast
qed


theorem csv_round_trip_witness:
  "\<exists>s'. parseAndLoadCSV online
           (csvContent
              (saveToCSV online (freshApp\<lparr>inputForm := map (\<lambda>k. (k, ''3'')) allMetricIds\<rparr>)))
           freshApp = Inr s' \<and>
         map_of (inputForm s') ''teams'' = Some ''3'' \<and>
         collectFormData s' = map (\<lambda>k. (k, 3)) allMetricIds"
proof -
  have valid: "\<forall>k \<in> set allMetricIds. (\<lambda>k. 3 :: nat) k \<le> 5" by simp
  have three: "natToString 3 = ''3''" by (simp add: natToString.simps digitChar_def)
  have exported: "inputForm (freshApp\<lparr>inputForm := map (\<lambda>k. (k, ''3'')) allMetricIds\<rparr>) =
      map (\<lambda>k. (k, natToString ((\<lambda>k. 3) k))) allMetricIds"
    by (simp add: three)
  have teams: "''teams'' \<in> set allMetricIds" by (simp add: allMetricIds_def themes_def)
  from csv_round_trip [OF valid exported freshApp_page, of online online] teams
  show ?thesis by (auto simp: three)
qed


subsection \<open>Server: update of an assessment\<close>


lemma findOne_None:
  "castObjectId c idParam = Some i \<Longrightarrow>
     findOne c idParam uid db = Inr None \<longleftrightarrow> \<not> (\<exists>a \<in> set db. docId a = i \<and> userId a = uid)"
  by (auto simp: findOne_def find_None_iff)

lemma findOne_cast_error:
  "castObjectId c idParam = None \<Longrightarrow> findOne c idParam uid db = Inl ''CastError''"
  by (simp add: findOne_def)





subsection \<open>Server: ratings at the persistence boundary\<close>

text \<open>
  What holds of the claim: a body without \<open>feedback\<close> and \<open>teams\<close>, or with
  ratings out of range, is rejected by the validation middleware with exactly these two
  fields listed, and an import lacking valid rows for them is rejected with exactly the
  two identifiers listed as missing.
\<close>

lemma validateAssessment_missing_example:
  "validateAssessment (\<lambda>d. True)
     \<lparr>bodyEmployeeName = Some ''Jane Doe'', bodyAssessmentDate = None,
      bodyMetrics = (\<lambda>k. if k = ''feedback'' \<or> k = ''teams'' then None
                           else if k \<in> set requiredMetrics then Some ''3'' else None)\<rparr> =
   [(''metrics.feedback'', ''Feedback must be between 0 and 5''),
    (''metrics.teams'', ''Teams must be between 0 and 5'')]"
  by code_simp

lemma validateAssessment_range_example:
  "validateAssessment (\<lambda>d. True)
     \<lparr>bodyEmployeeName = Some ''Jane Doe'', bodyAssessmentDate = None,
      bodyMetrics = (\<lambda>k. if k = ''feedback'' then Some ''7''
                           else if k = ''teams'' then Some ''-1''
                           else if k \<in> set requiredMetrics then Some ''3'' else None)\<rparr> =
   [(''metrics.feedback'', ''Feedback must be between 0 and 5''),
    (''metrics.teams'', ''Teams must be between 0 and 5'')]"
  by code_simp

lemma importFromCSV_missing_example:
  "importFromCSV sampleServer ''u1''
     (Some (''Categories,Ratings'' @ [CHR 0x0A] @
            concat (map (\<lambda>k. k @ '',3'' @ [CHR 0x0A])
                      (filter (\<lambda>k. k \<noteq> ''feedback'' \<and> k \<noteq> ''teams'') requiredMetrics)) @
            ''feedback,9'' @ [CHR 0x0A]))
     (Some ''Jane Doe'') [] =
   (MissingMetrics [''feedback'', ''teams''], [])"
  by code_simp

text \<open>
  Claim C5 names the rejection of a rating that is not an integer. The validation
  middleware does reject it (\<^verbatim>\<open>isInt\<close>), but importFromCSV reads the rating with
  \<^verbatim>\<open>parseInt\<close>, which stops at the decimal point: a CSV with the row \<open>feedback,3.7\<close>
  is imported, with feedback stored as 3 and no error reported.
\<close>

theorem importFromCSV_truncates_fraction:
  "includesStr sampleCsv (''feedback,3.7'' @ [CHR 0x0A]) \<and>
   fst (importFromCSV sampleServer ''u1'' (Some sampleCsv) (Some ''Jane Doe'') []) =
     Json201 \<lparr>docId = ObjectId ''65e6f0a1b2c3d4e5f6a7b8ca'', userId = ''u1'',
              docEmployeeName = ''Jane Doe'', assessmentDate = ''2024-04-01T08:00:00.000Z'',
              docMetrics = sampleMetrics, createdAt = ''2024-04-01T08:00:00.000Z'',
              updatedAt = ''2024-04-01T08:00:00.000Z'', version = 1\<rparr> [] \<and>
   feedback sampleMetrics = 3 \<and>
   validateAssessment (\<lambda>d. True)
     \<lparr>bodyEmployeeName = Some ''Jane Doe'', bodyAssessmentDate = None,
      bodyMetrics = (\<lambda>k. if k = ''feedback'' then Some ''3.7''
                           else if k \<in> set requiredMetrics then Some ''3'' else None)\<rparr> =
     [(''metrics.feedback'', ''Feedback must be between 0 and 5'')]"
  by code_simp


theorem importFromCSV_truncates_fraction_witness:
  "\<exists>doc. fst (importFromCSV sampleServer ''u1'' (Some sampleCsv) (Some ''Jane Doe'') []) =
           Json201 doc [] \<and>
         feedback (docMetrics doc) = 3"
  using importFromCSV_truncates_fraction by simp

lemma requiredMetrics_allMetricIds: "requiredMetrics = allMetricIds"
  by (simp add: requiredMetrics_def allMetricIds_def themes_def)

lemma metricRules_keys: "map fst metricRules = requiredMetrics"
  by (simp add: metricRules_def requiredMetrics_def)

lemma validateAssessment_rejects:
  assumes k: "k \<in> set requiredMetrics"
    and bad: "case bodyMetrics body k of None \<Rightarrow> True | Some v \<Rightarrow> \<not> isInt05 v"
  shows "\<exists>errors. handleValidationErrors (validateAssessment isISO8601 body) =
           Some (ValidationFailed errors) \<and> ''metrics.'' @ k \<in> fst ` set errors"
proof -
  from k obtain msg where rule: "(k, msg) \<in> set metricRules"
    unfolding metricRules_keys [symmetric] by auto
  let ?bad = "filter (\<lambda>(k, msg). case bodyMetrics body k of None \<Rightarrow> True | Some v \<Rightarrow> \<not> isInt05 v)
      metricRules"
  have "(k, msg) \<in> set ?bad" using rule bad by simp
  then have "(''metrics.'' @ k, msg) \<in> set (map (\<lambda>(k, msg). (''metrics.'' @ k, msg)) ?bad)"
    by force
  then have "(''metrics.'' @ k, msg) \<in> set (validateAssessment isISO8601 body)"
    by (simp add: validateAssessment_def Let_def del: set_map)
  then show ?thesis
    by (force simp: handleValidationErrors_def)
qed

end
